theory Spec2Isabelle
  imports Complex_Main "HOL-Library.Log_Nat"
begin

section \<open>JavaScript values used by \<open>lib/analyzer.ts\<close>\<close>

subsection \<open>Strings\<close>

text \<open>
  A JavaScript string is a sequence of UTF-16 code units, here integers from 0 to
  65535; \<open>length\<close> is the source's \<open>.length\<close>. The texts the program itself contains are
  ASCII and written as character strings, \<open>str\<close> giving their code units.
\<close>

type_synonym jsString = "int list"

definition str :: "string \<Rightarrow> jsString" where
  "str s = map of_char s"

subsection \<open>Thrown values\<close>

text \<open>
  A JavaScript \<open>throw\<close> can carry any value. The analyzer only looks at whether the value
  is an \<open>Error\<close> instance and, if so, at its \<open>message\<close>.
\<close>

datatype jsThrown = Error jsString | NonError

subsection \<open>Numbers\<close>

text \<open>
  JavaScript numbers are IEEE 754 binary64 values. A finite double is modelled by the
  rational it denotes, and every arithmetic operation whose exact result need not be a
  double is followed by \<open>fl\<close>, rounding to nearest with ties to even at 53 significant
  bits (with the gradual underflow of the format below \<open>2 powi -1022\<close>). Overflow to
  \<open>Infinity\<close> is not modelled: it needs a magnitude of \<open>2 powi 1024\<close>, and every number
  the analyzer computes is bounded by a hundred times an element or character count of
  the document. Integer-valued quantities (counts, lengths, scores) are \<open>nat\<close> or \<open>int\<close>.
\<close>

definition ilog2 :: "rat \<Rightarrow> int" where
  "ilog2 x = (if 1 \<le> x then bitlen \<lfloor>x\<rfloor> - 1 else - bitlen (\<lceil>1 / x\<rceil> - 1))"

definition rne :: "rat \<Rightarrow> int" where
  "rne q = (let f = \<lfloor>q\<rfloor>; r = q - of_int f in
     if r < 1 / 2 then f else if 1 / 2 < r then f + 1 else if even f then f else f + 1)"

definition ulp :: "rat \<Rightarrow> rat" where
  "ulp x = 2 powi (max (ilog2 \<bar>x\<bar>) (- 1022) - 52)"

definition fl :: "rat \<Rightarrow> rat" where
  "fl x = (if x = 0 then 0 else sgn x * (of_int (rne (\<bar>x\<bar> / ulp x)) * ulp x))"

definition fadd :: "rat \<Rightarrow> rat \<Rightarrow> rat" where
  "fadd x y = fl (x + y)"

definition fmul :: "rat \<Rightarrow> rat \<Rightarrow> rat" where
  "fmul x y = fl (x * y)"

definition fdiv :: "rat \<Rightarrow> rat \<Rightarrow> rat" where
  "fdiv x y = fl (x / y)"

text \<open>\<open>Math.round\<close>: the nearest integer, a tie going towards plus infinity.\<close>

definition jsRound :: "rat \<Rightarrow> int" where
  "jsRound x = \<lfloor>x + 1 / 2\<rfloor>"

text \<open>
  \<open>Number(x.toFixed(2))\<close> for \<open>0 \<le> x < 1e21\<close>: \<open>toFixed\<close> picks the integer \<open>n\<close> with
  \<open>n / 100\<close> closest to \<open>x\<close> (the larger one on a tie) and prints it with two decimals;
  \<open>Number\<close> reads the decimal back as the nearest double.
\<close>

definition toFixed2 :: "rat \<Rightarrow> rat" where
  "toFixed2 x = fl (of_int \<lfloor>100 * x + 1 / 2\<rfloor> / 100)"

subsection \<open>Operations on strings\<close>

text \<open>
  \<open>toLowerCase\<close> follows the default case conversion of Unicode. The analyzer
  looks at a lower-cased text in three ways only: it searches it for ASCII words, takes
  the index of such a word in it, and takes its length. The model lower-cases the code
  units whose lower case contains an ASCII character (\<open>A\<close> to \<open>Z\<close>, U+0130 and U+212A), the
  capital letters of Latin-1 and U+212B; U+0130, the capital I with a dot, is the one
  code unit whose lower case is two code units, \<open>i\<close> and the combining dot U+0307. The
  capital letters of other scripts are left as they are: their lower case is one code
  unit for one (a surrogate pair for a pair) and never an ASCII character, so a search
  for an ASCII word, its index and the length are the same either way.
\<close>

definition toLowerUnit :: "int \<Rightarrow> jsString" where
  "toLowerUnit c =
     (if (65 \<le> c \<and> c \<le> 90) \<or> (192 \<le> c \<and> c \<le> 222 \<and> c \<noteq> 215) then [c + 32]
      else if c = 304 then [105, 775]
      else if c = 8490 then [107]
      else if c = 8491 then [229]
      else [c])"

definition toLowerCase :: "jsString \<Rightarrow> jsString" where
  "toLowerCase s = concat (map toLowerUnit s)"

text \<open>
  The class \<open>\s\<close> of a regular expression, which is also the white space \<open>parseInt\<close>
  skips: the white space and the line terminators of ECMAScript.
\<close>

definition isWhiteSpace :: "int \<Rightarrow> bool" where
  "isWhiteSpace c =
     (c \<in> {9, 10, 11, 12, 13, 32, 160, 5760, 8232, 8233, 8239, 8287, 12288, 65279} \<or>
      (8192 \<le> c \<and> c \<le> 8202))"

text \<open>The class \<open>[.!?]\<close>.\<close>

definition isSentenceEnd :: "int \<Rightarrow> bool" where
  "isSentenceEnd c = (c = 46 \<or> c = 33 \<or> c = 63)"

fun startsWith :: "jsString \<Rightarrow> jsString \<Rightarrow> bool" where
  "startsWith s [] = True"
| "startsWith [] (c # w) = False"
| "startsWith (a # s) (c # w) = (a = c \<and> startsWith s w)"

fun includes_str :: "jsString \<Rightarrow> jsString \<Rightarrow> bool" where
  "includes_str [] w = startsWith [] w"
| "includes_str (a # s) w = (startsWith (a # s) w \<or> includes_str s w)"

text \<open>\<open>indexOf\<close> scans from the left and answers \<open>-1\<close> when there is no occurrence.\<close>

fun indexOfFrom :: "nat \<Rightarrow> jsString \<Rightarrow> jsString \<Rightarrow> int" where
  "indexOfFrom i [] w = (if startsWith [] w then int i else - 1)"
| "indexOfFrom i (a # s) w = (if startsWith (a # s) w then int i else indexOfFrom (Suc i) s w)"

definition indexOf :: "jsString \<Rightarrow> jsString \<Rightarrow> int" where
  "indexOf s w = indexOfFrom 0 s w"

text \<open>
  \<open>s.split(/[C]+/)\<close> for a character class \<open>C\<close>: every maximal run of characters of the
  class is one separator, and the pieces around the separators are returned, the empty
  piece before a leading run and after a trailing run included. The flag says whether
  the scan is inside a run, the accumulator holds the current piece reversed.
\<close>

fun splitRunsFrom :: "(int \<Rightarrow> bool) \<Rightarrow> bool \<Rightarrow> jsString \<Rightarrow> jsString \<Rightarrow> jsString list" where
  "splitRunsFrom C inRun cur [] = [rev cur]"
| "splitRunsFrom C inRun cur (c # cs) =
     (if C c then (if inRun then splitRunsFrom C True cur cs
                   else rev cur # splitRunsFrom C True [] cs)
      else splitRunsFrom C False (c # cur) cs)"

definition splitRuns :: "(int \<Rightarrow> bool) \<Rightarrow> jsString \<Rightarrow> jsString list" where
  "splitRuns C s = splitRunsFrom C False [] s"

text \<open>\<open>s.split(',')\<close>: every comma is a separator of its own.\<close>

fun splitCharFrom :: "int \<Rightarrow> jsString \<Rightarrow> jsString \<Rightarrow> jsString list" where
  "splitCharFrom d cur [] = [rev cur]"
| "splitCharFrom d cur (c # cs) =
     (if c = d then rev cur # splitCharFrom d [] cs else splitCharFrom d (c # cur) cs)"

definition splitChar :: "int \<Rightarrow> jsString \<Rightarrow> jsString list" where
  "splitChar d s = splitCharFrom d [] s"

text \<open>
  \<open>parseInt(s)\<close> without a radix: leading white space and one sign are skipped, a prefix
  \<open>0x\<close> or \<open>0X\<close> selects base 16, and the longest run of digits is read; \<open>None\<close> is \<open>NaN\<close>.
\<close>

definition digitValue :: "nat \<Rightarrow> int \<Rightarrow> nat option" where
  "digitValue radix c = (let
       v = (if 48 \<le> c \<and> c \<le> 57 then Some (nat (c - 48))
            else if 97 \<le> c \<and> c \<le> 122 then Some (nat (c - 87))
            else if 65 \<le> c \<and> c \<le> 90 then Some (nat (c - 55))
            else None)
     in case v of None \<Rightarrow> None | Some d \<Rightarrow> if d < radix then Some d else None)"

fun readDigits :: "nat \<Rightarrow> nat \<Rightarrow> nat \<Rightarrow> jsString \<Rightarrow> (nat \<times> nat)" where
  "readDigits radix acc k [] = (acc, k)"
| "readDigits radix acc k (c # cs) =
     (case digitValue radix c of
        None \<Rightarrow> (acc, k)
      | Some d \<Rightarrow> readDigits radix (acc * radix + d) (Suc k) cs)"

definition parseInt :: "jsString \<Rightarrow> rat option" where
  "parseInt s =
     (let s1 = dropWhile isWhiteSpace s;
          neg = startsWith s1 (str ''-'');
          s2 = (if startsWith s1 (str ''-'') \<or> startsWith s1 (str ''+'') then tl s1 else s1);
          hex = (startsWith s2 (str ''0x'') \<or> startsWith s2 (str ''0X''));
          (v, k) = (if hex then readDigits 16 0 0 (drop 2 s2) else readDigits 10 0 0 s2)
      in if k = 0 then None
         else Some (if neg then - fl (of_nat v) else fl (of_nat v)))"

text \<open>The decimal numeral of a natural number, as a template literal prints it.\<close>

fun natToString :: "nat \<Rightarrow> jsString" where
  "natToString n =
     (if n < 10 then [48 + int n]
      else natToString (n div 10) @ [48 + int (n mod 10)])"

declare natToString.simps [simp del]

text \<open>\<open>Array.from(new Set(xs))\<close>: the distinct elements in the order of first occurrence.\<close>

fun uniqueFrom :: "'a list \<Rightarrow> 'a list \<Rightarrow> 'a list" where
  "uniqueFrom seen [] = []"
| "uniqueFrom seen (x # xs) =
     (if x \<in> set seen then uniqueFrom seen xs else x # uniqueFrom (x # seen) xs)"

definition unique :: "'a list \<Rightarrow> 'a list" where
  "unique xs = uniqueFrom [] xs"

section \<open>Scoring methods\<close>

text \<open>
  The methods take \<open>params: any\<close>; the fields the callers put into the object are the
  arguments here, in the order the callers write them. A field the method never reads
  is still an argument.
\<close>

definition calculateContentScore ::
  "nat \<Rightarrow> int \<Rightarrow> nat \<Rightarrow> nat \<Rightarrow> bool \<Rightarrow> bool \<Rightarrow> int \<Rightarrow> int" where
  "calculateContentScore wordCount readabilityScore spellingIssues grammarIssues
       hasClearValue hasCTA messageClarity =
     (let score = 70;
          score = (if wordCount \<ge> 300 then score + 10 else score);
          score = (if readabilityScore \<ge> 60 then score + 10 else score);
          score = (if spellingIssues = 0 then score + 5 else score);
          score = (if hasClearValue then score + 5 else score)
      in min 100 score)"

definition calculateSEOScore ::
  "nat \<Rightarrow> nat \<Rightarrow> nat \<Rightarrow> bool \<Rightarrow> nat \<Rightarrow> nat \<Rightarrow> bool \<Rightarrow> bool \<Rightarrow> int" where
  "calculateSEOScore title description h1Count properStructure missingAlt totalImages
       schemaMarkup mobileOptimized =
     (let score = 50;
          score = (if title \<ge> 30 \<and> title \<le> 60 then score + 15 else score);
          score = (if description \<ge> 120 then score + 15 else score);
          score = (if properStructure then score + 10 else score);
          score = (if schemaMarkup then score + 5 else score);
          score = (if mobileOptimized then score + 5 else score)
      in min 100 score)"

definition calculatePerformanceScore ::
  "nat \<Rightarrow> nat \<Rightarrow> nat \<Rightarrow> bool \<Rightarrow> bool \<Rightarrow> bool \<Rightarrow> rat \<Rightarrow> int" where
  "calculatePerformanceScore scripts styles images hasMinifiedCSS hasMinifiedJS
       hasLazyLoading estimatedLoadTime =
     (let score = 80;
          score = (if scripts > 10 then score - 10 else score);
          score = (if hasMinifiedCSS then score + 5 else score);
          score = (if hasMinifiedJS then score + 5 else score);
          score = (if hasLazyLoading then score + 10 else score)
      in max 0 (min 100 score))"

definition calculateDesignScore :: "int \<Rightarrow> int \<Rightarrow> bool \<Rightarrow> nat \<Rightarrow> int \<Rightarrow> int" where
  "calculateDesignScore visualHierarchy whitespace readableSize fontVariety imageTextBalance =
     (let score = 60;
          score = (if visualHierarchy \<ge> 70 then score + 15 else score);
          score = (if whitespace \<ge> 70 then score + 10 else score);
          score = (if readableSize then score + 10 else score);
          score = (if fontVariety \<ge> 3 \<and> fontVariety \<le> 6 then score + 5 else score)
      in min 100 score)"

definition calculatePsychologyScore ::
  "nat \<Rightarrow> nat \<Rightarrow> bool \<Rightarrow> int \<Rightarrow> bool \<Rightarrow> bool \<Rightarrow> int" where
  "calculatePsychologyScore trustSignals ctaCount ctaAboveFold ctaClarity hasUrgency
       hasSocialProof =
     (let score = 50;
          score = (if trustSignals \<ge> 3 then score + 20 else score);
          score = (if ctaCount \<ge> 1 then score + 10 else score);
          score = (if ctaAboveFold then score + 10 else score);
          score = (if hasSocialProof then score + 10 else score)
      in min 100 score)"

definition calculateAccessibilityScore :: "rat \<Rightarrow> rat \<Rightarrow> bool \<Rightarrow> bool \<Rightarrow> int" where
  "calculateAccessibilityScore ariaScore altScore hasSemanticHTML hasLangAttr =
     (let score = fdiv (fadd ariaScore altScore) 2;
          score = (if hasSemanticHTML then fadd score 10 else score);
          score = (if hasLangAttr then fadd score 5 else score)
      in min 100 (jsRound score))"

subsection \<open>Text heuristics\<close>

definition calculateReadability :: "jsString \<Rightarrow> int" where
  "calculateReadability text =
     (let sentences = length (splitRuns isSentenceEnd text);
          words = length (splitRuns isWhiteSpace text);
          avgWordsPerSentence = fdiv (of_nat words) (of_nat (max sentences 1))
      in if avgWordsPerSentence \<le> 15 then 90
         else if avgWordsPerSentence \<le> 20 then 75
         else if avgWordsPerSentence \<le> 25 then 60
         else 40)"

definition corrections :: "(jsString \<times> jsString) list" where
  "corrections =
     [((str ''recieve''), (str ''receive'')), ((str ''occured''), (str ''occurred'')), ((str ''seperate''), (str ''separate'')),
      ((str ''definately''), (str ''definitely'')), ((str ''alot''), (str ''a lot''))]"

text \<open>\<open>corrections[word] || word\<close>: a missing or empty entry gives the word back.\<close>

definition getCorrection :: "jsString \<Rightarrow> jsString" where
  "getCorrection word =
     (case map_of corrections word of
        None \<Rightarrow> word
      | Some c \<Rightarrow> if c = [] then word else c)"

definition commonMisspellings :: "jsString list" where
  "commonMisspellings = [(str ''recieve''), (str ''occured''), (str ''seperate''), (str ''definately''), (str ''alot'')]"

section \<open>The parsed document\<close>

text \<open>
  The analyzer reads the page only through cheerio, a library outside the repository:
  each field below is the answer of the document to one selector query of
  \<open>lib/analyzer.ts\<close>, named after the query. The two link queries are built from the
  analyzer's \<open>url\<close>, so they are functions of it, and they throw where the url makes the
  selector text ill-formed.
\<close>

record Doc =
  sel_body_text :: jsString  \<comment> \<open>\<open>$('body').text()\<close>\<close>
  sel_button_a_text :: jsString  \<comment> \<open>\<open>$('button, a').text()\<close>\<close>
  sel_title_text :: jsString  \<comment> \<open>\<open>$('title').text()\<close>\<close>
  sel_h1_first_text :: jsString  \<comment> \<open>\<open>$('h1').first().text()\<close>\<close>
  sel_h1 :: nat  \<comment> \<open>\<open>$('h1').length\<close>\<close>
  sel_h2 :: nat  \<comment> \<open>\<open>$('h2').length\<close>\<close>
  sel_h3 :: nat  \<comment> \<open>\<open>$('h3').length\<close>\<close>
  sel_meta_description :: "jsString option"  \<comment> \<open>\<open>$('meta[name="description"]').attr('content')\<close>\<close>
  sel_meta_keywords :: "jsString option"  \<comment> \<open>\<open>$('meta[name="keywords"]').attr('content')\<close>\<close>
  sel_meta_viewport :: "jsString option"  \<comment> \<open>\<open>$('meta[name="viewport"]').attr('content')\<close>\<close>
  sel_img_alt :: "jsString option list"  \<comment> \<open>\<open>$(img).attr('alt')\<close> for each \<open>img\<close> of \<open>$('img')\<close>\<close>
  sel_img_lazy :: nat  \<comment> \<open>\<open>$('img[loading="lazy"]').length\<close>\<close>
  sel_internal_links :: "jsString \<Rightarrow> jsThrown + nat"
    \<comment> \<open>\<open>$('a[href^="/"], a[href^="' + url + '"]').length\<close>\<close>
  sel_external_links :: "jsString \<Rightarrow> jsThrown + nat"
    \<comment> \<open>\<open>$('a[href^="http"]').not('[href^="' + url + '"]').length\<close>\<close>
  sel_ld_json :: nat  \<comment> \<open>\<open>$('script[type="application/ld+json"]').length\<close>\<close>
  sel_script_src :: "jsString option list"  \<comment> \<open>\<open>$(el).attr('src')\<close> for each \<open>el\<close> of \<open>$('script[src]')\<close>\<close>
  sel_stylesheet_href :: "jsString option list"
    \<comment> \<open>\<open>$(el).attr('href')\<close> for each \<open>el\<close> of \<open>$('link[rel="stylesheet"]')\<close>\<close>
  sel_all_font_size :: "jsString option list"  \<comment> \<open>\<open>$(el).css('font-size')\<close> for each \<open>el\<close> of \<open>$('*')\<close>\<close>
  sel_canonical_href :: "jsString option"  \<comment> \<open>\<open>$('link[rel="canonical"]').attr('href')\<close>\<close>
  sel_contact_email_phone :: nat
    \<comment> \<open>\<open>$('*:contains("contact"), *:contains("email"), *:contains("phone")').length\<close>\<close>
  sel_privacy_links :: nat  \<comment> \<open>\<open>$('a[href*="privacy"]').length\<close>\<close>
  sel_terms_links :: nat  \<comment> \<open>\<open>$('a[href*="terms"]').length\<close>\<close>
  sel_testimonial_any :: nat  \<comment> \<open>\<open>$('*:contains("testimonial"), .testimonial').length\<close>\<close>
  sel_security_badges :: nat
    \<comment> \<open>\<open>$('img[alt*="secure"], img[alt*="ssl"], img[alt*="verified"]').length\<close>\<close>
  sel_ctas :: nat  \<comment> \<open>\<open>$('button, a.button, a.btn, .cta').length\<close>\<close>
  sel_ctas_text :: jsString  \<comment> \<open>\<open>$('button, a.button, a.btn, .cta').text()\<close>\<close>
  sel_contains_customers :: nat  \<comment> \<open>\<open>$('*:contains("customers")').length\<close>\<close>
  sel_contains_reviews :: nat  \<comment> \<open>\<open>$('*:contains("reviews")').length\<close>\<close>
  sel_contains_testimonial :: nat  \<comment> \<open>\<open>$('*:contains("testimonial")').length\<close>\<close>
  sel_aria_needing :: nat  \<comment> \<open>\<open>$('button, a, input, select, textarea').length\<close>\<close>
  sel_aria_labelled :: nat  \<comment> \<open>\<open>$('[aria-label], [aria-labelledby]').length\<close>\<close>
  sel_semantic :: nat  \<comment> \<open>\<open>$('header, nav, main, footer, article, section').length\<close>\<close>
  sel_html_lang :: nat  \<comment> \<open>\<open>$('html[lang]').length\<close>\<close>

section \<open>The result types\<close>

text \<open>
  One record for each interface of \<open>lib/analyzer.ts\<close>, and for each inline object type
  inside one. A field whose name is a keyword or a constant of the library carries a
  suffix. The string-literal union types (\<open>severity\<close>, \<open>impact\<close>, \<open>effort\<close>) are strings.
\<close>

record SpellingIssue =
  word :: jsString
  suggestion :: jsString
  position :: int

record GrammarIssue =
  text_g :: jsString
  suggestion :: jsString
  type_g :: jsString

record HeadingAnalysis =
  h1Count :: nat
  h2Count :: nat
  h3Count :: nat
  properHierarchy :: bool
  score :: int

record ContentQuality =
  hasClearValue :: bool
  hasCallToAction :: bool
  messageClarity :: int

record ContentAnalysis =
  score :: int
  wordCount :: nat
  readabilityScore :: int
  spellingIssues :: "SpellingIssue list"
  grammarIssues :: "GrammarIssue list"
  headingStructure :: HeadingAnalysis
  contentQuality :: ContentQuality

record MetaTag =
  present :: bool
  length_m :: nat
  optimized :: bool

record MetaTags =
  title :: MetaTag
  description :: MetaTag
  keywords_m :: "jsString list"

record Headings =
  h1Count :: nat
  properStructure :: bool

record Images =
  total :: nat
  missingAlt :: nat
  optimizationScore :: rat

record SEOAnalysis =
  score :: int
  metaTags :: MetaTags
  headings :: Headings
  images :: Images
  internalLinks :: nat
  externalLinks :: nat
  schemaMarkup :: bool
  mobileOptimized :: bool

record ResourcesSize =
  images :: nat
  scripts :: nat
  styles :: nat

record Optimizations =
  minifiedCSS :: bool
  minifiedJS :: bool
  compressedImages :: bool
  lazyLoading :: bool

record PerformanceAnalysis =
  score :: int
  estimatedLoadTime :: rat
  resourcesSize :: ResourcesSize
  optimizations :: Optimizations

record ColorContrastIssue =
  element :: jsString
  foreground :: jsString
  background :: jsString
  ratio :: rat

record ColorContrast =
  score :: int
  issues :: "ColorContrastIssue list"

record Typography =
  fontSizes :: "rat list"
  readableSize :: bool
  fontVariety :: nat

record ImageTextBalance =
  score :: int
  recommendation :: jsString

record DesignAnalysis =
  score :: int
  visualHierarchy :: int
  whitespace :: int
  colorContrast :: ColorContrast
  typography :: Typography
  imageTextBalance :: ImageTextBalance

record TrustSignals =
  score :: rat
  present :: "jsString list"
  missing :: "jsString list"

record CtaPlacement =
  score :: int
  ctaCount :: nat
  aboveFold :: bool
  clarity :: int

record ColorPsychology =
  score :: int
  dominantColors :: "jsString list"
  emotionalImpact :: jsString
  brandAlignment :: int

record PsychologyAnalysis =
  score :: int
  trustSignals :: TrustSignals
  ctaPlacement :: CtaPlacement
  colorPsychology :: ColorPsychology
  urgencyTriggers :: bool
  socialProof :: bool

record AriaLabels =
  score :: rat
  missing :: int

record AccessibilityAnalysis =
  score :: int
  wcagCompliance :: jsString
  ariaLabels :: AriaLabels
  keyboardNavigation :: bool
  screenReaderFriendly :: bool
  contrastRatio :: rat

record Issue =
  severity :: jsString
  category :: jsString
  title :: jsString
  description :: jsString
  impact :: jsString
  premium :: bool

record Recommendation =
  title :: jsString
  description :: jsString
  impact :: jsString
  effort :: jsString
  category :: jsString
  premium :: bool

record AnalysisResult =
  url :: jsString
  timestamp :: jsString
  overallScore :: int
  contentAnalysis :: ContentAnalysis
  seoAnalysis :: SEOAnalysis
  performanceAnalysis :: PerformanceAnalysis
  designAnalysis :: DesignAnalysis
  psychologyAnalysis :: PsychologyAnalysis
  accessibilityAnalysis :: AccessibilityAnalysis
  criticalIssues :: "Issue list"
  quickWins :: "Recommendation list"
  strategicImprovements :: "Recommendation list"
  freeInsightsCount :: nat
  premiumInsightsAvailable :: nat

text \<open>The three lists \<open>generateRecommendations\<close> returns.\<close>

record Recommendations =
  criticalIssues :: "Issue list"
  quickWins :: "Recommendation list"
  strategicImprovements :: "Recommendation list"

text \<open>The private fields of the class \<open>WebsiteAnalyzer\<close>; \<open>dollar\<close> is the field \<open>$\<close>.\<close>

record WebsiteAnalyzer =
  html :: jsString
  dollar :: "Doc option"
  url :: jsString

section \<open>The overall score\<close>

text \<open>
  \<open>calculateOverallScore\<close> reads the \<open>score\<close> of each of the six analyses; the literals
  \<open>0.25\<close>, \<open>0.20\<close>, \<open>0.15\<close> and \<open>0.10\<close> denote the doubles nearest to them, and the sum
  is taken from the left, one rounding after each product and each addition.
\<close>

definition weight_content :: rat where "weight_content = fl (25 / 100)"
definition weight_seo :: rat where "weight_seo = fl (20 / 100)"
definition weight_performance :: rat where "weight_performance = fl (15 / 100)"
definition weight_design :: rat where "weight_design = fl (15 / 100)"
definition weight_psychology :: rat where "weight_psychology = fl (15 / 100)"
definition weight_accessibility :: rat where "weight_accessibility = fl (10 / 100)"

definition calculateOverallScore ::
  "ContentAnalysis \<Rightarrow> SEOAnalysis \<Rightarrow> PerformanceAnalysis \<Rightarrow> DesignAnalysis \<Rightarrow>
   PsychologyAnalysis \<Rightarrow> AccessibilityAnalysis \<Rightarrow> int" where
  "calculateOverallScore content seo performance design psychology accessibility =
     jsRound
       (fadd (fadd (fadd (fadd (fadd
          (fmul (of_int (ContentAnalysis.score content)) weight_content)
          (fmul (of_int (SEOAnalysis.score seo)) weight_seo))
          (fmul (of_int (PerformanceAnalysis.score performance)) weight_performance))
          (fmul (of_int (DesignAnalysis.score design)) weight_design))
          (fmul (of_int (PsychologyAnalysis.score psychology)) weight_psychology))
          (fmul (of_int (AccessibilityAnalysis.score accessibility))
             weight_accessibility))"

section \<open>Analysis helper methods\<close>

definition analyzeHeadingStructure :: "Doc \<Rightarrow> HeadingAnalysis" where
  "analyzeHeadingStructure d =
     (let h1 = sel_h1 d; h2 = sel_h2 d; h3 = sel_h3 d in
      \<lparr>HeadingAnalysis.h1Count = h1, h2Count = h2, h3Count = h3,
       properHierarchy = (h1 = 1 \<and> h2 > 0),
       score = (if h1 = 1 \<and> h2 > 0 then 90 else 60)\<rparr>)"

text \<open>The \<open>forEach\<close> loop of \<open>detectSpellingIssues\<close>, one step for each word of the list.\<close>

definition detectSpellingIssues :: "jsString \<Rightarrow> SpellingIssue list" where
  "detectSpellingIssues text =
     foldl (\<lambda>issues word.
              if includes_str (toLowerCase text) word
              then issues @ [\<lparr>word = word, suggestion = getCorrection word,
                              position = indexOf (toLowerCase text) word\<rparr>]
              else issues)
       [] commonMisspellings"

definition detectGrammarIssues :: "jsString \<Rightarrow> GrammarIssue list" where
  "detectGrammarIssues text =
     (if includes_str text (str ''your welcome'')
      then [\<lparr>text_g = (str ''your welcome''), suggestion = (str ''you're welcome''), type_g = (str ''grammar'')\<rparr>]
      else [])"

definition assessMessageClarity :: "Doc \<Rightarrow> int" where
  "assessMessageClarity d =
     (let h1 = sel_h1_first_text d; t = sel_title_text d in
      if length h1 > 20 \<and> length t > 20 then 90
      else if length h1 > 10 \<or> length t > 10 then 70
      else 40)"

definition assessVisualHierarchy :: "Doc \<Rightarrow> int" where
  "assessVisualHierarchy d =
     (let h1 = sel_h1 d; h2 = sel_h2 d; h3 = sel_h3 d in
      if h1 = 1 \<and> h2 \<ge> 2 \<and> h3 \<ge> 1 then 90
      else if h1 = 1 \<and> h2 \<ge> 1 then 75
      else 50)"

definition assessWhitespace :: "Doc \<Rightarrow> int" where
  "assessWhitespace d =
     (let elements = length (sel_all_font_size d);
          text = length (sel_body_text d);
          density = fdiv (of_nat elements) (of_nat (max text 1))
      in if density > fl (1 / 100) then 80
         else if density > fl (5 / 1000) then 65
         else 50)"

definition calculateImageTextBalance :: "nat \<Rightarrow> nat \<Rightarrow> ImageTextBalance" where
  "calculateImageTextBalance imgs textLength =
     (let ratio = fdiv (of_nat imgs) (max (fdiv (of_nat textLength) 1000) 1) in
      if ratio > 5 then
        \<lparr>ImageTextBalance.score = 50,
         recommendation = (str ''Too many images relative to text content'')\<rparr>
      else if ratio < fl (5 / 10) \<and> imgs > 0 then
        \<lparr>ImageTextBalance.score = 60,
         recommendation = (str ''Consider adding more visuals to break up text'')\<rparr>
      else if imgs = 0 then
        \<lparr>ImageTextBalance.score = 40,
         recommendation = (str ''Add images to enhance visual appeal'')\<rparr>
      else
        \<lparr>ImageTextBalance.score = 85,
         recommendation = (str ''Good balance between images and text'')\<rparr>)"

text \<open>The entries of the object \<open>signals\<close> of \<open>detectTrustSignals\<close>, in insertion order.\<close>

definition signals :: "Doc \<Rightarrow> (jsString \<times> bool) list" where
  "signals d =
     [((str ''SSL Certificate''),
         (case sel_canonical_href d of None \<Rightarrow> False | Some h \<Rightarrow> startsWith h (str ''https://''))),
      ((str ''Contact Information''), sel_contact_email_phone d > 0),
      ((str ''Privacy Policy''), sel_privacy_links d > 0),
      ((str ''Terms of Service''), sel_terms_links d > 0),
      ((str ''Testimonials''), sel_testimonial_any d > 0),
      ((str ''Security Badge''), sel_security_badges d > 0)]"

definition detectTrustSignals :: "Doc \<Rightarrow> TrustSignals" where
  "detectTrustSignals d =
     (let pm = foldl (\<lambda>(present, missing) (signal, exists).
                        if exists then (present @ [signal], missing)
                        else (present, missing @ [signal]))
                 ([], []) (signals d);
          present = fst pm; missing = snd pm;
          score = fmul (fdiv (of_nat (length present))
                          (of_nat (length present + length missing))) 100
      in \<lparr>TrustSignals.score = score, present = present, missing = missing\<rparr>)"

definition actionWords :: "jsString list" where
  "actionWords =
     [(str ''buy''), (str ''get''), (str ''start''), (str ''try''), (str ''download''), (str ''subscribe''), (str ''contact''), (str ''learn'')]"

text \<open>\<open>assessCTAClarity\<close> reads the length and the text of the selection it is given.\<close>

definition assessCTAClarity :: "nat \<Rightarrow> jsString \<Rightarrow> int" where
  "assessCTAClarity ctasLength ctasText =
     (if ctasLength = 0 then 0
      else
        let ctaText = toLowerCase ctasText;
            hasActionWord = list_ex (\<lambda>w. includes_str ctaText w) actionWords
        in if hasActionWord \<and> ctasLength \<ge> 1 \<and> ctasLength \<le> 3 then 90
           else if hasActionWord then 75
           else if ctasLength > 0 then 60
           else 30)"

definition countFreeInsights :: "Issue list \<Rightarrow> Recommendation list \<Rightarrow> nat" where
  "countFreeInsights crit quick =
     length (filter (\<lambda>i. \<not> Issue.premium i) crit) +
     length (filter (\<lambda>r. \<not> Recommendation.premium r) quick)"

definition countPremiumInsights ::
  "Issue list \<Rightarrow> Recommendation list \<Rightarrow> Recommendation list \<Rightarrow> nat" where
  "countPremiumInsights crit quick strategic =
     length (filter (\<lambda>i. Issue.premium i) crit) +
     length (filter (\<lambda>r. Recommendation.premium r) quick) +
     length (filter (\<lambda>r. Recommendation.premium r) strategic)"

section \<open>Recommendations\<close>

text \<open>
  The three arrays start empty and each \<open>if\<close> of the source pushes at most one entry;
  the steps below are those pushes, in the source's order.
\<close>

definition generateRecommendations ::
  "ContentAnalysis \<Rightarrow> SEOAnalysis \<Rightarrow> PerformanceAnalysis \<Rightarrow> DesignAnalysis \<Rightarrow>
   PsychologyAnalysis \<Rightarrow> AccessibilityAnalysis \<Rightarrow> Recommendations" where
  "generateRecommendations content seo performance design psychology accessibility =
     (let crit = [];
          quick = [];
          strategic = [];
          crit = (if \<not> MetaTag.present (MetaTags.title (metaTags seo)) then crit @
                   [\<lparr>severity = (str ''critical''), category = (str ''SEO''),
                     title = (str ''Missing Page Title''),
                     description = (str ''Your page is missing a title tag, which is crucial for SEO''),
                     impact = (str ''Search engines cannot properly index your page''),
                     premium = False\<rparr>]
                  else crit);
          crit = (if \<not> MetaTag.present (MetaTags.description (metaTags seo)) then crit @
                   [\<lparr>severity = (str ''high''), category = (str ''SEO''),
                     title = (str ''Missing Meta Description''),
                     description = (str ''No meta description found''),
                     impact = (str ''Lower click-through rates from search results''),
                     premium = False\<rparr>]
                  else crit);
          quick = (if length (spellingIssues content) > 0 then quick @
                    [\<lparr>Recommendation.title = (str ''Fix Spelling Errors''),
                      description = (str ''Found '') @ natToString (length (spellingIssues content))
                                      @ (str '' spelling issues''),
                      impact = (str ''high''), effort = (str ''low''), category = (str ''Content''),
                      premium = (length (spellingIssues content) > 5)\<rparr>]
                   else quick);
          quick = (if \<not> lazyLoading (optimizations performance) then quick @
                    [\<lparr>Recommendation.title = (str ''Implement Lazy Loading''),
                      description = (str ''Add lazy loading to images for faster initial page load''),
                      impact = (str ''medium''), effort = (str ''low''), category = (str ''Performance''),
                      premium = False\<rparr>]
                   else quick);
          strategic = (if PsychologyAnalysis.score psychology < 70 then strategic @
                        [\<lparr>Recommendation.title = (str ''Enhance Trust Signals''),
                          description = (str ''Add testimonials, security badges, and social proof''),
                          impact = (str ''high''), effort = (str ''medium''), category = (str ''Psychology''),
                          premium = True\<rparr>]
                       else strategic);
          strategic = (if DesignAnalysis.score design < 70 then strategic @
                        [\<lparr>Recommendation.title = (str ''Improve Visual Hierarchy''),
                          description = (str ''Optimize typography and spacing for better readability''),
                          impact = (str ''high''), effort = (str ''medium''), category = (str ''Design''),
                          premium = True\<rparr>]
                       else strategic)
      in \<lparr>Recommendations.criticalIssues = crit, quickWins = quick,
          strategicImprovements = strategic\<rparr>)"

section \<open>The six analysis methods\<close>

text \<open>
  A method of the class takes the analyzer and returns what it yields, a thrown value or
  a result, together with the analyzer it leaves behind. \<open>optStr\<close> is \<open>x || ''\<close> for an
  attribute value, \<open>truthy\<close> the test \<open>if (x)\<close> on one.
\<close>

definition optStr :: "jsString option \<Rightarrow> jsString" where
  "optStr x = (case x of None \<Rightarrow> [] | Some v \<Rightarrow> v)"

definition truthy :: "jsString option \<Rightarrow> bool" where
  "truthy x = (case x of None \<Rightarrow> False | Some v \<Rightarrow> v \<noteq> [])"

definition analyzeContent ::
  "WebsiteAnalyzer \<Rightarrow> (jsThrown + ContentAnalysis) \<times> WebsiteAnalyzer" where
  "analyzeContent this =
     (case dollar this of
        None \<Rightarrow> (Inl (Error (str ''HTML not loaded'')), this)
      | Some d \<Rightarrow>
          (let text = sel_body_text d;
               wordCount = length (filter (\<lambda>w. length w > 0) (splitRuns isWhiteSpace text));
               headingStructure = analyzeHeadingStructure d;
               hasCTA = (includes_str (toLowerCase (sel_button_a_text d)) (str ''contact'') \<or>
                         includes_str (toLowerCase (sel_button_a_text d)) (str ''get started'') \<or>
                         includes_str (toLowerCase (sel_button_a_text d)) (str ''buy now''));
               titleText = toLowerCase (sel_title_text d);
               h1Text = toLowerCase (sel_h1_first_text d);
               hasClearValue = (length titleText > 10 \<and> length h1Text > 10);
               readabilityScore = calculateReadability text;
               spellingIssues = detectSpellingIssues text;
               grammarIssues = detectGrammarIssues text;
               messageClarity = assessMessageClarity d;
               score = calculateContentScore wordCount readabilityScore
                         (length spellingIssues) (length grammarIssues)
                         hasClearValue hasCTA messageClarity
           in (Inr \<lparr>ContentAnalysis.score = score,
                     wordCount = wordCount,
                     readabilityScore = readabilityScore,
                     spellingIssues = take 5 spellingIssues,
                     grammarIssues = take 5 grammarIssues,
                     headingStructure = headingStructure,
                     contentQuality = \<lparr>hasClearValue = hasClearValue,
                                       hasCallToAction = hasCTA,
                                       messageClarity = messageClarity\<rparr>\<rparr>,
               this)))"

definition analyzeSEO ::
  "WebsiteAnalyzer \<Rightarrow> (jsThrown + SEOAnalysis) \<times> WebsiteAnalyzer" where
  "analyzeSEO this =
     (case dollar this of
        None \<Rightarrow> (Inl (Error (str ''HTML not loaded'')), this)
      | Some d \<Rightarrow>
          (let title = sel_title_text d;
               description = optStr (sel_meta_description d);
               keywords = (case sel_meta_keywords d of
                             None \<Rightarrow> [] | Some c \<Rightarrow> splitChar 44 c);
               h1Count = sel_h1 d;
               properStructure = (h1Count = 1 \<and> sel_h2 d > 0);
               images = sel_img_alt d;
               missingAlt = length (filter (\<lambda>alt. \<not> truthy alt) images)
           in case sel_internal_links d (WebsiteAnalyzer.url this) of
                Inl e \<Rightarrow> (Inl e, this)
              | Inr n \<Rightarrow>
             (case sel_external_links d (WebsiteAnalyzer.url this) of
                Inl e \<Rightarrow> (Inl e, this)
              | Inr m \<Rightarrow>
             (let internalLinks = n;
                  externalLinks = m;
                  schemaMarkup = (sel_ld_json d > 0);
                  viewport = sel_meta_viewport d;
                  mobileOptimized = (truthy viewport \<and>
                                     includes_str (optStr viewport) (str ''width=device-width''));
                  score = calculateSEOScore (length title) (length description) h1Count
                            properStructure missingAlt (length images) schemaMarkup
                            mobileOptimized
              in (Inr \<lparr>SEOAnalysis.score = score,
                        metaTags =
                          \<lparr>MetaTags.title =
                             \<lparr>MetaTag.present = (length title > 0), length_m = length title,
                              optimized = (length title \<ge> 30 \<and> length title \<le> 60)\<rparr>,
                           description =
                             \<lparr>MetaTag.present = (length description > 0),
                              length_m = length description,
                              optimized = (length description \<ge> 120 \<and>
                                           length description \<le> 160)\<rparr>,
                           keywords_m = keywords\<rparr>,
                        headings = \<lparr>Headings.h1Count = h1Count,
                                    properStructure = properStructure\<rparr>,
                        images =
                          \<lparr>total = length images, missingAlt = missingAlt,
                           optimizationScore =
                             fmul (fdiv (of_nat (length images) - of_nat missingAlt)
                                     (of_nat (max (length images) 1))) 100\<rparr>,
                        internalLinks = internalLinks,
                        externalLinks = externalLinks,
                        schemaMarkup = schemaMarkup,
                        mobileOptimized = mobileOptimized\<rparr>,
                  this)))))"

definition analyzePerformance ::
  "WebsiteAnalyzer \<Rightarrow> (jsThrown + PerformanceAnalysis) \<times> WebsiteAnalyzer" where
  "analyzePerformance this =
     (case dollar this of
        None \<Rightarrow> (Inl (Error (str ''HTML not loaded'')), this)
      | Some d \<Rightarrow>
          (let scripts = length (sel_script_src d);
               styles = length (sel_stylesheet_href d);
               images = length (sel_img_alt d);
               hasMinifiedCSS = list_ex (\<lambda>href. case href of None \<Rightarrow> False
                                   | Some h \<Rightarrow> includes_str h (str ''.min.css''))
                                  (sel_stylesheet_href d);
               hasMinifiedJS = list_ex (\<lambda>src. case src of None \<Rightarrow> False
                                  | Some h \<Rightarrow> includes_str h (str ''.min.js''))
                                 (sel_script_src d);
               hasLazyLoading = (sel_img_lazy d > 0);
               estimatedLoadTime =
                 fadd (fadd (fmul (of_nat scripts) (fl (2 / 10)))
                            (fmul (of_nat styles) (fl (15 / 100))))
                      (fmul (of_nat images) (fl (1 / 10)));
               score = calculatePerformanceScore scripts styles images hasMinifiedCSS
                         hasMinifiedJS hasLazyLoading estimatedLoadTime
           in (Inr \<lparr>PerformanceAnalysis.score = score,
                     estimatedLoadTime = toFixed2 estimatedLoadTime,
                     resourcesSize = \<lparr>ResourcesSize.images = images, scripts = scripts,
                                      styles = styles\<rparr>,
                     optimizations = \<lparr>minifiedCSS = hasMinifiedCSS,
                                      minifiedJS = hasMinifiedJS,
                                      compressedImages = False,
                                      lazyLoading = hasLazyLoading\<rparr>\<rparr>,
               this)))"

text \<open>
  The \<open>each\<close> loop of \<open>analyzeDesign\<close>: an element contributes its font size when the
  style value is a non-empty string whose \<open>parseInt\<close> is a number.
\<close>

definition collectFontSizes :: "jsString option list \<Rightarrow> rat list" where
  "collectFontSizes els =
     foldl (\<lambda>fontSizes fontSize.
              if truthy fontSize
              then (case parseInt (optStr fontSize) of
                      None \<Rightarrow> fontSizes
                    | Some sz \<Rightarrow> fontSizes @ [sz])
              else fontSizes)
       [] els"

definition analyzeDesign ::
  "WebsiteAnalyzer \<Rightarrow> (jsThrown + DesignAnalysis) \<times> WebsiteAnalyzer" where
  "analyzeDesign this =
     (case dollar this of
        None \<Rightarrow> (Inl (Error (str ''HTML not loaded'')), this)
      | Some d \<Rightarrow>
          (let fontSizes = collectFontSizes (sel_all_font_size d);
               uniqueFontSizes = unique fontSizes;
               readableSize = list_ex (\<lambda>size. size \<ge> 16) fontSizes;
               visualHierarchy = assessVisualHierarchy d;
               whitespace = assessWhitespace d;
               imageCount = length (sel_img_alt d);
               textLength = length (sel_body_text d);
               imageTextBalance = calculateImageTextBalance imageCount textLength;
               score = calculateDesignScore visualHierarchy whitespace readableSize
                         (length uniqueFontSizes) (ImageTextBalance.score imageTextBalance)
           in (Inr \<lparr>DesignAnalysis.score = score,
                     visualHierarchy = visualHierarchy,
                     whitespace = whitespace,
                     colorContrast = \<lparr>ColorContrast.score = 75, issues = []\<rparr>,
                     typography = \<lparr>fontSizes = take 10 uniqueFontSizes,
                                   readableSize = readableSize,
                                   fontVariety = length uniqueFontSizes\<rparr>,
                     imageTextBalance = imageTextBalance\<rparr>,
               this)))"

definition analyzePsychology ::
  "WebsiteAnalyzer \<Rightarrow> (jsThrown + PsychologyAnalysis) \<times> WebsiteAnalyzer" where
  "analyzePsychology this =
     (case dollar this of
        None \<Rightarrow> (Inl (Error (str ''HTML not loaded'')), this)
      | Some d \<Rightarrow>
          (let trustSignals = detectTrustSignals d;
               ctasLength = sel_ctas d;
               ctaText = toLowerCase (sel_ctas_text d);
               hasUrgency = (includes_str ctaText (str ''now'') \<or> includes_str ctaText (str ''today'') \<or>
                             includes_str ctaText (str ''limited''));
               hasSocialProof = (sel_contains_customers d > 0 \<or>
                                 sel_contains_reviews d > 0 \<or>
                                 sel_contains_testimonial d > 0);
               ctaAboveFold = (ctasLength > 0);
               ctaClarity = assessCTAClarity ctasLength (sel_ctas_text d);
               score = calculatePsychologyScore (length (TrustSignals.present trustSignals))
                         ctasLength ctaAboveFold ctaClarity hasUrgency hasSocialProof
           in (Inr \<lparr>PsychologyAnalysis.score = score,
                     trustSignals = trustSignals,
                     ctaPlacement = \<lparr>CtaPlacement.score = ctaClarity,
                                     ctaCount = ctasLength,
                                     aboveFold = ctaAboveFold,
                                     clarity = ctaClarity\<rparr>,
                     colorPsychology = \<lparr>ColorPsychology.score = 70,
                                        dominantColors = [],
                                        emotionalImpact = (str ''Professional''),
                                        brandAlignment = 75\<rparr>,
                     urgencyTriggers = hasUrgency,
                     socialProof = hasSocialProof\<rparr>,
               this)))"

definition analyzeAccessibility ::
  "WebsiteAnalyzer \<Rightarrow> (jsThrown + AccessibilityAnalysis) \<times> WebsiteAnalyzer" where
  "analyzeAccessibility this =
     (case dollar this of
        None \<Rightarrow> (Inl (Error (str ''HTML not loaded'')), this)
      | Some d \<Rightarrow>
          (let elementsNeedingAria = sel_aria_needing d;
               elementsWithAria = sel_aria_labelled d;
               images = length (sel_img_alt d);
               imagesWithAlt = length (filter (\<lambda>alt. alt \<noteq> None) (sel_img_alt d));
               hasSemanticHTML = (sel_semantic d > 0);
               hasLangAttr = (sel_html_lang d > 0);
               ariaScore = (if elementsNeedingAria > 0
                            then fmul (fdiv (of_nat elementsWithAria)
                                         (of_nat elementsNeedingAria)) 100
                            else 100);
               altScore = (if images > 0
                           then fmul (fdiv (of_nat imagesWithAlt) (of_nat images)) 100
                           else 100);
               score = calculateAccessibilityScore ariaScore altScore hasSemanticHTML
                         hasLangAttr
           in (Inr \<lparr>AccessibilityAnalysis.score = score,
                     wcagCompliance = (if score \<ge> 80 then (str ''AA'')
                                       else if score \<ge> 60 then (str ''A'')
                                       else (str ''Needs Improvement'')),
                     ariaLabels = \<lparr>AriaLabels.score = ariaScore,
                                   missing = int elementsNeedingAria - int elementsWithAria\<rparr>,
                     keyboardNavigation = True,
                     screenReaderFriendly = (hasSemanticHTML \<and> ariaScore > 50),
                     contrastRatio = 45 / 10\<rparr>,
               this)))"

section \<open>Fetching and the whole analysis\<close>

text \<open>
  What lies outside the program at the time of a call: the answer of \<open>axios.get\<close> for a
  url (the response body, or the value it throws for a network error, a timeout or an
  error status), the parser \<open>cheerio.load\<close>, and the clock \<open>new Date().toISOString()\<close>.
  The list \<open>requests\<close> beside the analyzer records every call of \<open>axios.get\<close>.
\<close>

record Env =
  httpGet :: "jsString \<Rightarrow> jsThrown + jsString"
  cheerioLoad :: "jsString \<Rightarrow> jsThrown + Doc"
  now :: jsString

definition fetchWebsite ::
  "Env \<Rightarrow> jsString \<Rightarrow> WebsiteAnalyzer \<times> jsString list \<Rightarrow>
   (jsThrown + unit) \<times> (WebsiteAnalyzer \<times> jsString list)" where
  "fetchWebsite env u st =
     (let this = fst st; requests = snd st @ [u] in
      case httpGet env u of
        Inl e \<Rightarrow> (Inl e, (this, requests))
      | Inr response_data \<Rightarrow>
          (let this = this\<lparr>html := response_data\<rparr> in
           case cheerioLoad env (html this) of
             Inl e \<Rightarrow> (Inl e, (this, requests))
           | Inr d \<Rightarrow> (Inr (), (this\<lparr>dollar := Some d\<rparr>, requests))))"

text \<open>The \<open>catch\<close> clause of \<open>analyze\<close>: what it throws for a caught value.\<close>

definition analysisFailed :: "jsThrown \<Rightarrow> jsThrown" where
  "analysisFailed error =
     Error ((str ''Analysis failed: '') @
              (case error of Error message \<Rightarrow> message | NonError \<Rightarrow> (str ''Unknown error'')))"

text \<open>
  \<open>Promise.all\<close> over the six calls: each method is called, in the order of the array,
  on the analyzer the one before left; the six have no \<open>await\<close> inside, so each runs to
  its end when called. The promise rejects with the first rejection in that order, and
  otherwise yields the six results.
\<close>

definition analyze ::
  "Env \<Rightarrow> jsString \<Rightarrow> WebsiteAnalyzer \<times> jsString list \<Rightarrow>
   (jsThrown + AnalysisResult) \<times> (WebsiteAnalyzer \<times> jsString list)" where
  "analyze env u st =
     (let st = (fst st\<lparr>WebsiteAnalyzer.url := u\<rparr>, snd st) in
      case fetchWebsite env u st of
        (Inl e, st) \<Rightarrow> (Inl (analysisFailed e), st)
      | (Inr _, (this, requests)) \<Rightarrow>
          (let (r1, this) = analyzeContent this;
               (r2, this) = analyzeSEO this;
               (r3, this) = analyzePerformance this;
               (r4, this) = analyzeDesign this;
               (r5, this) = analyzePsychology this;
               (r6, this) = analyzeAccessibility this
           in case r1 of Inl e \<Rightarrow> (Inl (analysisFailed e), (this, requests)) | Inr content \<Rightarrow>
             (case r2 of Inl e \<Rightarrow> (Inl (analysisFailed e), (this, requests)) | Inr seo \<Rightarrow>
             (case r3 of Inl e \<Rightarrow> (Inl (analysisFailed e), (this, requests)) | Inr performance \<Rightarrow>
             (case r4 of Inl e \<Rightarrow> (Inl (analysisFailed e), (this, requests)) | Inr design \<Rightarrow>
             (case r5 of Inl e \<Rightarrow> (Inl (analysisFailed e), (this, requests)) | Inr psychology \<Rightarrow>
             (case r6 of Inl e \<Rightarrow> (Inl (analysisFailed e), (this, requests)) | Inr accessibility \<Rightarrow>
                (let overallScore = calculateOverallScore content seo performance design
                                      psychology accessibility;
                     recs = generateRecommendations content seo performance design
                              psychology accessibility
                 in (Inr \<lparr>AnalysisResult.url = u,
                           timestamp = now env,
                           overallScore = overallScore,
                           contentAnalysis = content,
                           seoAnalysis = seo,
                           performanceAnalysis = performance,
                           designAnalysis = design,
                           psychologyAnalysis = psychology,
                           accessibilityAnalysis = accessibility,
                           criticalIssues = Recommendations.criticalIssues recs,
                           quickWins = Recommendations.quickWins recs,
                           strategicImprovements = Recommendations.strategicImprovements recs,
                           freeInsightsCount =
                             countFreeInsights (Recommendations.criticalIssues recs)
                               (Recommendations.quickWins recs),
                           premiumInsightsAvailable =
                             countPremiumInsights (Recommendations.criticalIssues recs)
                               (Recommendations.quickWins recs)
                               (Recommendations.strategicImprovements recs)\<rparr>,
                     (this, requests))))))))))"

section \<open>Running the analysis methods in any order\<close>

text \<open>
  To speak about the order of the six calls, a method is named by a tag and its result is
  injected into one type; \<open>runModules\<close> calls the methods of a list one after the other,
  each on the analyzer the one before left.
\<close>

datatype Module = Content | SEO | Performance | Design | Psychology | Accessibility

datatype ModuleResult =
    ContentResult ContentAnalysis
  | SEOResult SEOAnalysis
  | PerformanceResult PerformanceAnalysis
  | DesignResult DesignAnalysis
  | PsychologyResult PsychologyAnalysis
  | AccessibilityResult AccessibilityAnalysis

definition runModule ::
  "Module \<Rightarrow> WebsiteAnalyzer \<Rightarrow> (jsThrown + ModuleResult) \<times> WebsiteAnalyzer" where
  "runModule m this =
     (case m of
        Content \<Rightarrow> (map_sum id ContentResult (fst (analyzeContent this)),
                      snd (analyzeContent this))
      | SEO \<Rightarrow> (map_sum id SEOResult (fst (analyzeSEO this)), snd (analyzeSEO this))
      | Performance \<Rightarrow> (map_sum id PerformanceResult (fst (analyzePerformance this)),
                          snd (analyzePerformance this))
      | Design \<Rightarrow> (map_sum id DesignResult (fst (analyzeDesign this)),
                     snd (analyzeDesign this))
      | Psychology \<Rightarrow> (map_sum id PsychologyResult (fst (analyzePsychology this)),
                         snd (analyzePsychology this))
      | Accessibility \<Rightarrow> (map_sum id AccessibilityResult (fst (analyzeAccessibility this)),
                            snd (analyzeAccessibility this)))"

fun runModules ::
  "Module list \<Rightarrow> WebsiteAnalyzer \<Rightarrow> (jsThrown + ModuleResult) list \<times> WebsiteAnalyzer" where
  "runModules [] this = ([], this)"
| "runModules (m # ms) this =
     (fst (runModule m this) # fst (runModules ms (snd (runModule m this))),
      snd (runModules ms (snd (runModule m this))))"

section \<open>Notions of the specification\<close>

text \<open>
  A denylist word \<open>w\<close> occurs case-insensitively at index \<open>i\<close> of a text when the
  \<open>length w\<close> code units from \<open>i\<close> on, put to lower case, are \<open>w\<close>.
\<close>

definition occursAt :: "jsString \<Rightarrow> jsString \<Rightarrow> nat \<Rightarrow> bool" where
  "occursAt w text i =
     (i + length w \<le> length text \<and> toLowerCase (take (length w) (drop i text)) = w)"

text \<open>
  The words of a text in the sense of \<open>wordCount\<close> in \<open>analyzeContent\<close>: the non-empty
  pieces between runs of white space.
\<close>

definition tokens :: "jsString \<Rightarrow> jsString list" where
  "tokens text = filter (\<lambda>w. length w > 0) (splitRuns isWhiteSpace text)"

text \<open>A result with its time stamp blanked, to compare two runs.\<close>

definition withoutTimestamp :: "AnalysisResult \<Rightarrow> AnalysisResult" where
  "withoutTimestamp r = r\<lparr>timestamp := []\<rparr>"

section \<open>Example inputs\<close>

text \<open>A small page, the world that serves it at one address, and a fresh analyzer.\<close>

definition examplePage :: Doc where
  "examplePage =
     \<lparr>sel_body_text = (str '' We recieve alot of mail. Contact us today! ''),
      sel_button_a_text = (str ''Contact''),
      sel_title_text = (str ''Example Domain Page''),
      sel_h1_first_text = (str ''Example Heading''),
      sel_h1 = 1, sel_h2 = 2, sel_h3 = 0,
      sel_meta_description = None,
      sel_meta_keywords = Some (str ''a,b''),
      sel_meta_viewport = Some (str ''width=device-width, initial-scale=1''),
      sel_img_alt = [Some (str ''logo''), None, Some []],
      sel_img_lazy = 0,
      sel_internal_links = (\<lambda>u. Inr 2),
      sel_external_links = (\<lambda>u. Inr 1),
      sel_ld_json = 0,
      sel_script_src = [Some (str ''a.min.js'')],
      sel_stylesheet_href = [Some (str ''s.css'')],
      sel_all_font_size = [None, Some (str ''16px''), Some (str ''12px''), Some (str ''16px''), Some (str ''big'')],
      sel_canonical_href = Some (str ''https://example.com/''),
      sel_contact_email_phone = 3,
      sel_privacy_links = 0, sel_terms_links = 0, sel_testimonial_any = 0,
      sel_security_badges = 0,
      sel_ctas = 1, sel_ctas_text = (str ''Contact''),
      sel_contains_customers = 0, sel_contains_reviews = 0, sel_contains_testimonial = 0,
      sel_aria_needing = 100, sel_aria_labelled = 57,
      sel_semantic = 0, sel_html_lang = 0\<rparr>"

definition exampleEnv :: Env where
  "exampleEnv =
     \<lparr>httpGet = (\<lambda>u. if u = (str ''https://example.com/'') then Inr (str ''<html></html>'')
                     else Inl (Error (str ''getaddrinfo ENOTFOUND''))),
      cheerioLoad = (\<lambda>h. Inr examplePage),
      now = (str ''2024-01-01T00:00:00.000Z'')\<rparr>"

definition newAnalyzer :: WebsiteAnalyzer where
  "newAnalyzer = \<lparr>html = [], dollar = None, url = []\<rparr>"

definition exampleUrl :: jsString where
  "exampleUrl = (str ''https://example.com/'')"

text \<open>The analyzer after \<open>fetchWebsite\<close> has loaded the page.\<close>

definition exampleLoaded :: WebsiteAnalyzer where
  "exampleLoaded = \<lparr>html = (str ''<html></html>''), dollar = Some examplePage, url = exampleUrl\<rparr>"

text \<open>What the analysis of the page returns, module by module and as a whole.\<close>

definition exampleContent :: ContentAnalysis where
  "exampleContent =
     \<lparr>ContentAnalysis.score = 85, wordCount = 8, readabilityScore = 90,
      spellingIssues =
        [\<lparr>word = (str ''recieve''), suggestion = (str ''receive''),
            position = 4\<rparr>,
         \<lparr>word = (str ''alot''), suggestion = (str ''a lot''), position = 12\<rparr>],
      grammarIssues = [],
      headingStructure =
        \<lparr>HeadingAnalysis.h1Count = 1, h2Count = 2, h3Count = 0,
           properHierarchy = True, score = 90\<rparr>,
      contentQuality =
        \<lparr>hasClearValue = True, hasCallToAction = True,
           messageClarity = 70\<rparr>\<rparr>"

definition exampleSEO :: SEOAnalysis where
  "exampleSEO =
     \<lparr>SEOAnalysis.score = 65,
      metaTags =
        \<lparr>MetaTags.title =
           \<lparr>MetaTag.present = True, length_m = 19,
              optimized = False\<rparr>,
           description =
             \<lparr>MetaTag.present = False, length_m = 0,
                optimized = False\<rparr>,
           keywords_m = [(str ''a''), (str ''b'')]\<rparr>,
      headings = \<lparr>Headings.h1Count = 1, properStructure = True\<rparr>,
      images =
        \<lparr>Images.total = 3, missingAlt = 2,
           optimizationScore = 2345624805922133 / 70368744177664\<rparr>,
      internalLinks = 2, externalLinks = 1, schemaMarkup = False,
      mobileOptimized = True\<rparr>"

definition examplePerformance :: PerformanceAnalysis where
  "examplePerformance =
     \<lparr>PerformanceAnalysis.score = 85,
      estimatedLoadTime = 5854679515581645 / 9007199254740992,
      resourcesSize =
        \<lparr>ResourcesSize.images = 3, scripts = 1, styles = 1\<rparr>,
      optimizations =
        \<lparr>minifiedCSS = False, minifiedJS = True,
           compressedImages = False, lazyLoading = False\<rparr>\<rparr>"

definition exampleDesign :: DesignAnalysis where
  "exampleDesign =
     \<lparr>DesignAnalysis.score = 95, visualHierarchy = 75, whitespace = 80,
      colorContrast = \<lparr>ColorContrast.score = 75, issues = []\<rparr>,
      typography =
        \<lparr>fontSizes = [16, 12], readableSize = True, fontVariety = 2\<rparr>,
      imageTextBalance =
        \<lparr>ImageTextBalance.score = 85,
           recommendation =
             (str ''Good balance between images and text'')\<rparr>\<rparr>"

definition examplePsychology :: PsychologyAnalysis where
  "examplePsychology =
     \<lparr>PsychologyAnalysis.score = 70,
      trustSignals =
        \<lparr>TrustSignals.score = 2345624805922133 / 70368744177664,
           present = [(str ''SSL Certificate''), (str ''Contact Information'')],
           missing =
             [(str ''Privacy Policy''), (str ''Terms of Service''),
              (str ''Testimonials''), (str ''Security Badge'')]\<rparr>,
      ctaPlacement =
        \<lparr>CtaPlacement.score = 90, ctaCount = 1, aboveFold = True,
           clarity = 90\<rparr>,
      colorPsychology =
        \<lparr>ColorPsychology.score = 70, dominantColors = [],
           emotionalImpact = (str ''Professional''), brandAlignment = 75\<rparr>,
      urgencyTriggers = False, socialProof = False\<rparr>"

definition exampleAccessibility :: AccessibilityAnalysis where
  "exampleAccessibility =
     \<lparr>AccessibilityAnalysis.score = 62, wcagCompliance = (str ''A''),
      ariaLabels =
        \<lparr>AriaLabels.score = 8022036836253695 / 140737488355328,
           missing = 43\<rparr>,
      keyboardNavigation = True, screenReaderFriendly = False,
      contrastRatio = 9 / 2\<rparr>"

definition exampleResult :: AnalysisResult where
  "exampleResult =
     \<lparr>AnalysisResult.url = exampleUrl,
      timestamp = (str ''2024-01-01T00:00:00.000Z''),
      overallScore = 78,
      contentAnalysis = exampleContent,
      seoAnalysis = exampleSEO,
      performanceAnalysis = examplePerformance,
      designAnalysis = exampleDesign,
      psychologyAnalysis = examplePsychology,
      accessibilityAnalysis = exampleAccessibility,
      criticalIssues =
        [\<lparr>severity = (str ''high''), category = (str ''SEO''),
         title = (str ''Missing Meta Description''),
         description = (str ''No meta description found''),
         impact = (str ''Lower click-through rates from search results''),
         premium = False\<rparr>],
      quickWins =
        [\<lparr>Recommendation.title = (str ''Fix Spelling Errors''),
            description = (str ''Found 2 spelling issues''), impact = (str ''high''),
            effort = (str ''low''), category = (str ''Content''), premium = False\<rparr>,
         \<lparr>Recommendation.title = (str ''Implement Lazy Loading''),
            description =
              (str ''Add lazy loading to images for faster initial page load''),
            impact = (str ''medium''), effort = (str ''low''),
            category = (str ''Performance''), premium = False\<rparr>],
      strategicImprovements = [],
      freeInsightsCount = 3,
      premiumInsightsAvailable = 0\<rparr>"

section \<open>Properties of the number model\<close>

text \<open>
  The exponent \<open>ilog2\<close> brackets its argument between two powers of two; from that,
  \<open>fl\<close> keeps the sign, moves a number by at most half a unit in the last place, and
  leaves a number with at most 53 significant bits as it is.
\<close>

lemma pow2_le_of_int: "2 ^ n \<le> (k::int) \<Longrightarrow> (2::rat) ^ n \<le> of_int k"
  by (metis of_int_le_iff of_int_numeral of_int_power)

lemma of_int_less_pow2: "(k::int) < 2 ^ n \<Longrightarrow> (of_int k :: rat) < 2 ^ n"
  by (metis of_int_less_iff of_int_numeral of_int_power)

lemma powi_neg: "0 \<le> k \<Longrightarrow> (2::rat) powi (- k) = 1 / 2 ^ nat k"
  by (cases "k = 0") (simp_all add: power_int_def inverse_eq_divide power_one_over)

lemma powi_nonneg: "0 \<le> k \<Longrightarrow> (2::rat) powi k = 2 ^ nat k"
  by (simp add: power_int_def)

lemma ilog2_lower:
  assumes "0 < x"
  shows "2 powi (ilog2 x) \<le> x"
proof (cases "1 \<le> x")
  case True
  then have n: "0 < \<lfloor>x\<rfloor>" by simp
  from bitlen_bounds[OF n] have "(2::rat) ^ nat (bitlen \<lfloor>x\<rfloor> - 1) \<le> of_int \<lfloor>x\<rfloor>"
    by (simp add: pow2_le_of_int)
  also have "\<dots> \<le> x" by simp
  finally have "(2::rat) ^ nat (bitlen \<lfloor>x\<rfloor> - 1) \<le> x" .
  moreover have "1 \<le> bitlen \<lfloor>x\<rfloor>" using n by (simp add: bitlen_alt_def)
  ultimately show ?thesis using True by (simp add: ilog2_def power_int_def)
next
  case False
  define m where "m = \<lceil>1 / x\<rceil> - 1"
  have "1 < 1 / x" using False assms by simp
  then have "1 < \<lceil>1 / x\<rceil>" by (simp add: less_ceiling_iff)
  then have m: "0 < m" by (simp add: m_def)
  have "1 / x \<le> of_int (m + 1)" by (simp add: m_def)
  also have "(of_int (m + 1) :: rat) \<le> 2 ^ nat (bitlen m)"
  proof -
    from bitlen_bounds[OF m] have "m + 1 \<le> 2 ^ nat (bitlen m)" by simp
    then show ?thesis by (metis of_int_le_iff of_int_numeral of_int_power)
  qed
  finally have "1 / x \<le> 2 ^ nat (bitlen m)" .
  then have "1 / 2 ^ nat (bitlen m) \<le> x"
    using assms by (simp add: field_simps)
  moreover have "ilog2 x = - bitlen m" using False by (simp add: ilog2_def m_def)
  ultimately show ?thesis by (simp add: powi_neg bitlen_nonneg)
qed

lemma ilog2_upper:
  assumes "0 < x"
  shows "x < 2 powi (ilog2 x + 1)"
proof (cases "1 \<le> x")
  case True
  then have n: "0 < \<lfloor>x\<rfloor>" by simp
  have "x < of_int (\<lfloor>x\<rfloor> + 1)" by linarith
  also have "(of_int (\<lfloor>x\<rfloor> + 1) :: rat) \<le> 2 ^ nat (bitlen \<lfloor>x\<rfloor>)"
  proof -
    from bitlen_bounds[OF n] have "\<lfloor>x\<rfloor> + 1 \<le> 2 ^ nat (bitlen \<lfloor>x\<rfloor>)" by simp
    then show ?thesis by (metis of_int_le_iff of_int_numeral of_int_power)
  qed
  finally have "x < 2 ^ nat (bitlen \<lfloor>x\<rfloor>)" .
  moreover have "0 \<le> bitlen \<lfloor>x\<rfloor>" by (rule bitlen_nonneg)
  ultimately show ?thesis using True by (simp add: ilog2_def power_int_def)
next
  case False
  define m where "m = \<lceil>1 / x\<rceil> - 1"
  have "1 < 1 / x" using False assms by simp
  then have "1 < \<lceil>1 / x\<rceil>" by (simp add: less_ceiling_iff)
  then have m: "0 < m" by (simp add: m_def)
  have k: "1 \<le> bitlen m" using m by (simp add: bitlen_alt_def)
  from bitlen_bounds[OF m] have "(2::rat) ^ nat (bitlen m - 1) \<le> of_int m"
    by (simp add: pow2_le_of_int)
  also have "(of_int m :: rat) < 1 / x" unfolding m_def by linarith
  finally have "(2::rat) ^ nat (bitlen m - 1) < 1 / x" .
  then have "x < 1 / 2 ^ nat (bitlen m - 1)"
    using assms by (simp add: field_simps)
  moreover have "ilog2 x + 1 = - (bitlen m - 1)" using False by (simp add: ilog2_def m_def)
  moreover have "0 \<le> bitlen m - 1" using k by simp
  ultimately show ?thesis by (simp only: powi_neg)
qed

lemma powi_less_imp_less: "(2::rat) powi a < 2 powi b \<Longrightarrow> a < b"
proof (rule ccontr)
  assume h: "(2::rat) powi a < 2 powi b" and "\<not> a < b"
  then have "b \<le> a" by simp
  then have "(2::rat) powi b \<le> 2 powi a" by (rule power_int_increasing) simp
  with h show False by simp
qed

lemma rne_err: "\<bar>of_int (rne q) - q\<bar> \<le> 1 / 2"
proof -
  have "of_int \<lfloor>q\<rfloor> \<le> q" "q < of_int \<lfloor>q\<rfloor> + 1" by linarith+
  then show ?thesis by (auto simp: rne_def Let_def)
qed

lemma rne_of_int: "rne (of_int k) = k"
  by (simp add: rne_def)

lemma rne_nonneg: "0 \<le> q \<Longrightarrow> 0 \<le> rne q"
proof -
  assume "0 \<le> q"
  then have "0 \<le> \<lfloor>q\<rfloor>" by simp
  then show ?thesis by (auto simp: rne_def Let_def)
qed

lemma ulp_pos: "0 < ulp x"
  by (simp add: ulp_def zero_less_power_int)

lemma fl_nonneg: "0 \<le> x \<Longrightarrow> 0 \<le> fl x"
proof -
  assume x: "0 \<le> x"
  have "0 \<le> \<bar>x\<bar> / ulp x" using ulp_pos[of x] by simp
  then have "0 \<le> rne (\<bar>x\<bar> / ulp x)" by (rule rne_nonneg)
  then have "0 \<le> (of_int (rne (\<bar>x\<bar> / ulp x)) :: rat) * ulp x"
    using ulp_pos[of x] by simp
  then show ?thesis using x by (simp add: fl_def sgn_if)
qed

lemma fl_error: "\<bar>fl x - x\<bar> \<le> ulp x / 2"
proof (cases "x = 0")
  case True
  then show ?thesis using ulp_pos[of 0] by (simp add: fl_def)
next
  case False
  define u where "u = ulp x"
  define r where "r = (of_int (rne (\<bar>x\<bar> / u)) :: rat)"
  have u: "0 < u" by (simp add: u_def ulp_pos)
  have "\<bar>r - \<bar>x\<bar> / u\<bar> \<le> 1 / 2" unfolding r_def by (rule rne_err)
  then have "\<bar>r - \<bar>x\<bar> / u\<bar> * u \<le> 1 / 2 * u" using u by (simp add: mult_right_mono)
  moreover have "\<bar>r - \<bar>x\<bar> / u\<bar> * u = \<bar>r * u - \<bar>x\<bar>\<bar>"
  proof -
    have "\<bar>r - \<bar>x\<bar> / u\<bar> * u = \<bar>(r - \<bar>x\<bar> / u) * u\<bar>" using u by (simp add: abs_mult)
    also have "(r - \<bar>x\<bar> / u) * u = r * u - \<bar>x\<bar>" using u by (simp add: field_simps)
    finally show ?thesis .
  qed
  ultimately have e: "\<bar>r * u - \<bar>x\<bar>\<bar> \<le> u / 2" by simp
  have "fl x = sgn x * (r * u)" using False by (simp add: fl_def r_def u_def)
  then have "fl x - x = sgn x * (r * u - \<bar>x\<bar>)"
    by (simp add: algebra_simps mult_sgn_abs abs_mult_sgn)
  then have "\<bar>fl x - x\<bar> = \<bar>r * u - \<bar>x\<bar>\<bar>"
    using False by (simp add: abs_mult abs_sgn_eq)
  with e show ?thesis by (simp add: u_def)
qed

lemma ilog2_ge: "0 < x \<Longrightarrow> 2 powi k \<le> x \<Longrightarrow> k \<le> ilog2 x"
proof -
  assume "0 < x" and "2 powi k \<le> x"
  then have "(2::rat) powi k < 2 powi (ilog2 x + 1)"
    using ilog2_upper[of x] by simp
  then have "k < ilog2 x + 1" by (rule powi_less_imp_less)
  then show ?thesis by simp
qed

lemma ulp_le:
  assumes "2 powi (- 1022) \<le> \<bar>x\<bar>"
  shows "ulp x \<le> \<bar>x\<bar> / 2 ^ 52"
proof -
  have pos: "0 < \<bar>x\<bar>" using assms zero_less_power_int[of "2::rat" "- 1022"] by linarith
  have "- 1022 \<le> ilog2 \<bar>x\<bar>" using pos assms by (rule ilog2_ge)
  then have "ulp x = 2 powi (ilog2 \<bar>x\<bar> - 52)" by (simp add: ulp_def max_def)
  also have "\<dots> = 2 powi (ilog2 \<bar>x\<bar>) / 2 powi 52" by (simp add: power_int_diff)
  also have "\<dots> \<le> \<bar>x\<bar> / 2 powi 52"
    using ilog2_lower[OF pos] by (simp add: divide_right_mono)
  finally show ?thesis by simp
qed

lemma fl_rel_error:
  assumes "2 powi (- 1022) \<le> \<bar>x\<bar>"
  shows "\<bar>fl x - x\<bar> \<le> \<bar>x\<bar> / 2 ^ 53"
proof -
  have "\<bar>fl x - x\<bar> \<le> ulp x / 2" by (rule fl_error)
  also have "\<dots> \<le> (\<bar>x\<bar> / 2 ^ 52) / 2" using ulp_le[OF assms] by simp
  also have "\<dots> = \<bar>x\<bar> / 2 ^ 53" by simp
  finally show ?thesis .
qed

lemma fl_exact:
  assumes m: "\<bar>m\<bar> < 2 ^ 53" and j: "- 1074 \<le> j"
  shows "fl (of_int m * 2 powi j) = of_int m * 2 powi j"
proof (cases "m = 0")
  case True
  then show ?thesis by (simp add: fl_def)
next
  case False
  define x where "x = (of_int m :: rat) * 2 powi j"
  define E where "E = max (ilog2 \<bar>x\<bar>) (- 1022) - 52"
  have p: "(0::rat) < 2 powi j" by (simp add: zero_less_power_int)
  have x0: "x \<noteq> 0" using False p by (simp add: x_def)
  have ax: "\<bar>x\<bar> = of_int \<bar>m\<bar> * 2 powi j" using p by (simp add: x_def abs_mult)
  have "(of_int \<bar>m\<bar> :: rat) < 2 ^ 53" using m by (rule of_int_less_pow2)
  then have "\<bar>x\<bar> < 2 ^ 53 * 2 powi j" using p by (simp add: ax)
  also have "(2::rat) ^ 53 * 2 powi j = 2 powi (53 + j)"
    by (simp add: power_int_add)
  finally have "\<bar>x\<bar> < 2 powi (53 + j)" .
  moreover have "2 powi (ilog2 \<bar>x\<bar>) \<le> \<bar>x\<bar>" using x0 by (simp add: ilog2_lower)
  ultimately have "(2::rat) powi (ilog2 \<bar>x\<bar>) < 2 powi (53 + j)" by simp
  then have "ilog2 \<bar>x\<bar> < 53 + j" by (rule powi_less_imp_less)
  then have Ej: "E \<le> j" using j by (simp add: E_def)
  have u: "ulp x = 2 powi E" by (simp add: ulp_def E_def)
  have "\<bar>x\<bar> / ulp x = of_int \<bar>m\<bar> * (2 powi j / 2 powi E)" by (simp add: ax u)
  also have "(2::rat) powi j / 2 powi E = 2 powi (j - E)" by (simp add: power_int_diff)
  also have "(2::rat) powi (j - E) = 2 ^ nat (j - E)" using Ej by (simp add: powi_nonneg)
  finally have q: "\<bar>x\<bar> / ulp x = of_int (\<bar>m\<bar> * 2 ^ nat (j - E))" by simp
  have "rne (\<bar>x\<bar> / ulp x) = \<bar>m\<bar> * 2 ^ nat (j - E)" unfolding q by (rule rne_of_int)
  then have "of_int (rne (\<bar>x\<bar> / ulp x)) * ulp x = \<bar>x\<bar> / ulp x * ulp x" by (simp add: q)
  also have "\<dots> = \<bar>x\<bar>" using ulp_pos[of x] by simp
  finally have "fl x = sgn x * \<bar>x\<bar>" using x0 by (simp add: fl_def)
  then show ?thesis by (simp add: x_def[symmetric] mult_sgn_abs)
qed

lemma fl_quarters: "\<bar>k\<bar> < 2 ^ 53 \<Longrightarrow> fl (of_int k / 4) = of_int k / 4"
  using fl_exact[of k "- 2"] by (simp add: power_int_minus_divide)

lemma fl_of_int: "\<bar>k\<bar> < 2 ^ 53 \<Longrightarrow> fl (of_int k) = of_int k"
  using fl_exact[of k 0] by simp

subsection \<open>The weighted sum of six scores\<close>

text \<open>
  The products by \<open>0.20\<close>, \<open>0.15\<close> and \<open>0.10\<close> are evaluated for every multiple of five a
  module score can be; the rest of the sum is exact, or off by far less than the
  distance of the exact sum to the next rounding boundary.
\<close>

lemma weight_content_eq: "weight_content = 1 / 4" by code_simp
lemma weight_seo_eq: "weight_seo = 3602879701896397 / 18014398509481984" by code_simp
lemma weight_performance_eq: "weight_performance = 5404319552844595 / 36028797018963968" by code_simp
lemma weight_design_eq: "weight_design = 5404319552844595 / 36028797018963968" by code_simp
lemma weight_psychology_eq: "weight_psychology = 5404319552844595 / 36028797018963968" by code_simp
lemma weight_accessibility_eq: "weight_accessibility = 3602879701896397 / 36028797018963968" by code_simp

lemma products_20_list:
  "list_all (\<lambda>k. fl (of_nat (5 * k) * (3602879701896397 / 18014398509481984)) = of_nat k) [10..<21]"
  by code_simp

lemma products_15_list:
  "list_all (\<lambda>k. fl (of_nat (5 * k) * (5404319552844595 / 36028797018963968)) = of_nat (3 * k) / 4) [10..<21]"
  by code_simp

lemma products_10_list:
  "list_all (\<lambda>k. fl (of_nat (5 * k) * (3602879701896397 / 36028797018963968)) = of_nat k / 2) [0..<21]"
  by code_simp

lemma of_int_5k:
  fixes s :: int
  assumes "0 \<le> s" "5 dvd s"
  shows "(of_int s :: rat) = of_nat (5 * nat (s div 5))"
proof -
  have "s = 5 * (s div 5)" using assms by simp
  moreover have "0 \<le> s div 5" using assms by simp
  ultimately have "s = int (5 * nat (s div 5))" by simp
  then have "(of_int s :: rat) = of_int (int (5 * nat (s div 5)))" by simp
  then show ?thesis by (simp only: of_int_of_nat_eq)
qed

lemma product_20:
  fixes s :: int
  assumes "50 \<le> s" "s \<le> 100" "5 dvd s"
  shows "fmul (of_int s) weight_seo = of_int (s div 5)"
proof -
  define k where "k = nat (s div 5)"
  have k: "10 \<le> k" "k < 21" using assms by (simp_all add: k_def) 
  have s: "(of_int s :: rat) = of_nat (5 * k)" unfolding k_def using assms by (intro of_int_5k) simp_all
  have "k \<in> set [10..<21]" unfolding set_upt using k by simp
  with products_20_list
  have "fl (of_nat (5 * k) * (3602879701896397 / 18014398509481984)) = (of_nat k :: rat)"
    unfolding list_all_iff by blast
  moreover have "(of_nat k :: rat) = of_int (s div 5)" using assms by (simp add: k_def)
  ultimately show ?thesis by (simp only: fmul_def weight_seo_eq s)
qed

lemma product_15:
  fixes s :: int
  assumes "50 \<le> s" "s \<le> 100" "5 dvd s"
  shows "fl (of_int s * (5404319552844595 / 36028797018963968)) = of_int (3 * (s div 5)) / 4"
proof -
  define k where "k = nat (s div 5)"
  have k: "10 \<le> k" "k < 21" using assms by (simp_all add: k_def) 
  have s: "(of_int s :: rat) = of_nat (5 * k)" unfolding k_def using assms by (intro of_int_5k) simp_all
  have "k \<in> set [10..<21]" unfolding set_upt using k by simp
  with products_15_list
  have "fl (of_nat (5 * k) * (5404319552844595 / 36028797018963968)) = (of_nat (3 * k) / 4 :: rat)"
    unfolding list_all_iff by blast
  moreover have "(of_nat (3 * k) :: rat) = of_int (3 * (s div 5))" using assms by (simp add: k_def)
  ultimately show ?thesis by (simp only: s)
qed

lemma product_10:
  fixes a :: int
  assumes "0 \<le> a" "a \<le> 100" "5 dvd a"
  shows "fmul (of_int a) weight_accessibility = of_int (a div 5) / 2"
proof -
  define k where "k = nat (a div 5)"
  have k: "k < 21" using assms by (simp add: k_def) 
  have s: "(of_int a :: rat) = of_nat (5 * k)" unfolding k_def using assms by (intro of_int_5k) simp_all
  have "k \<in> set [0..<21]" unfolding set_upt using k by simp
  with products_10_list
  have "fl (of_nat (5 * k) * (3602879701896397 / 36028797018963968)) = (of_nat k / 2 :: rat)"
    unfolding list_all_iff by blast
  moreover have "(of_nat k :: rat) = of_int (a div 5)" using assms by (simp add: k_def)
  ultimately show ?thesis by (simp only: fmul_def weight_accessibility_eq s)
qed

lemma floor_stable:
  fixes N :: int and e :: rat
  assumes "\<not> 20 dvd N" "\<bar>e\<bar> < 1 / 20"
  shows "\<lfloor>of_int N / 20 + e\<rfloor> = \<lfloor>(of_int N / 20 :: rat)\<rfloor>"
proof -
  define q where "q = N div 20"
  define r where "r = N mod 20"
  have N: "N = 20 * q + r" by (simp add: q_def r_def)
  have r: "1 \<le> r" "r \<le> 19"
    using assms(1) by (simp_all add: r_def dvd_eq_mod_eq_0)
  have x: "(of_int N / 20 :: rat) = of_int q + of_int r / 20" by (simp add: N)
  have r1: "(1::rat) \<le> of_int r" "(of_int r :: rat) \<le> 19" using r by simp_all
  have "\<lfloor>(of_int N / 20 :: rat)\<rfloor> = q"
    unfolding x using r1 by (intro floor_unique) simp_all
  moreover have "\<lfloor>of_int N / 20 + e\<rfloor> = q"
    unfolding x using r1 assms(2) by (intro floor_unique) (simp_all add: abs_less_iff)
  ultimately show ?thesis by simp
qed

lemma fadd_quarters:
  fixes A B :: int
  assumes "\<bar>A + B\<bar> < 2 ^ 53"
  shows "fadd (of_int A / 4) (of_int B / 4) = of_int (A + B) / 4"
proof -
  have "(of_int A / 4 + of_int B / 4 :: rat) = of_int (A + B) / 4" by simp
  then show ?thesis using fl_quarters[OF assms] by (simp only: fadd_def)
qed

lemma five_times_div:
  fixes s :: int
  shows "5 dvd s \<Longrightarrow> 5 * (s div 5) = s"
  by simp

lemma overall_core:
  fixes c s p d y a :: int
  assumes c: "0 \<le> c" "c \<le> 100"
      and s: "50 \<le> s" "s \<le> 100" "5 dvd s"
      and p: "50 \<le> p" "p \<le> 100" "5 dvd p"
      and d: "50 \<le> d" "d \<le> 100" "5 dvd d"
      and y: "50 \<le> y" "y \<le> 100" "5 dvd y"
      and a: "0 \<le> a" "a \<le> 100"
  shows "jsRound
       (fadd (fadd (fadd (fadd (fadd
          (fmul (of_int c) weight_content)
          (fmul (of_int s) weight_seo))
          (fmul (of_int p) weight_performance))
          (fmul (of_int d) weight_design))
          (fmul (of_int y) weight_psychology))
          (fmul (of_int a) weight_accessibility))
     = \<lfloor>(of_int (25 * c + 20 * s + 15 * p + 15 * d + 15 * y + 10 * a) / 100 + 1 / 2 :: rat)\<rfloor>"
proof -
  define ks kp kd ky where "ks = s div 5" and "kp = p div 5" and "kd = d div 5" and "ky = y div 5"
  have ks: "10 \<le> ks" "ks \<le> 20" "s = 5 * ks" using s by (simp_all add: ks_def)
  have kp: "10 \<le> kp" "kp \<le> 20" "p = 5 * kp" using p by (simp_all add: kp_def)
  have kd: "10 \<le> kd" "kd \<le> 20" "d = 5 * kd" using d by (simp_all add: kd_def)
  have ky: "10 \<le> ky" "ky \<le> 20" "y = 5 * ky" using y by (simp_all add: ky_def)
  define M where "M = c + 4 * ks + 3 * kp + 3 * kd + 3 * ky"
  have Mb: "130 \<le> M" "M \<le> 360" using c ks kp kd ky by (simp_all add: M_def)
  have pc: "fmul (of_int c) weight_content = of_int c / 4"
  proof -
    have "\<bar>c\<bar> < 2 ^ 53" using c by simp
    then show ?thesis using fl_quarters[of c] by (simp add: fmul_def weight_content_eq)
  qed
  have ps: "fmul (of_int s) weight_seo = of_int (4 * ks) / 4"
    using product_20[OF s] by (simp add: ks_def)
  have pp: "fmul (of_int p) weight_performance = of_int (3 * kp) / 4"
    using product_15[OF p] by (simp only: fmul_def weight_performance_eq kp_def)
  have pd: "fmul (of_int d) weight_design = of_int (3 * kd) / 4"
    using product_15[OF d] by (simp only: fmul_def weight_design_eq kd_def)
  have py: "fmul (of_int y) weight_psychology = of_int (3 * ky) / 4"
    using product_15[OF y] by (simp only: fmul_def weight_psychology_eq ky_def)
  have t1: "fadd (of_int c / 4) (of_int (4 * ks) / 4) = of_int (c + 4 * ks) / 4"
    using c ks by (intro fadd_quarters) simp
  have t2: "fadd (of_int (c + 4 * ks) / 4) (of_int (3 * kp) / 4) = of_int (c + 4 * ks + 3 * kp) / 4"
    using c ks kp by (intro fadd_quarters) simp
  have t3: "fadd (of_int (c + 4 * ks + 3 * kp) / 4) (of_int (3 * kd) / 4)
              = of_int (c + 4 * ks + 3 * kp + 3 * kd) / 4"
    using c ks kp kd by (intro fadd_quarters) simp
  have t4: "fadd (of_int (c + 4 * ks + 3 * kp + 3 * kd) / 4) (of_int (3 * ky) / 4) = of_int M / 4"
    unfolding M_def using c ks kp kd ky by (intro fadd_quarters) simp
  have T: "fadd (fadd (fadd (fadd
          (fmul (of_int c) weight_content)
          (fmul (of_int s) weight_seo))
          (fmul (of_int p) weight_performance))
          (fmul (of_int d) weight_design))
          (fmul (of_int y) weight_psychology) = of_int M / 4"
    by (simp only: pc ps pp pd py t1 t2 t3 t4)
  have total: "25 * c + 20 * s + 15 * p + 15 * d + 15 * y + 10 * a = 25 * M + 10 * a"
    by (simp add: M_def ks kp kd ky)
  show ?thesis
  proof (cases "5 dvd a")
    case True
    define ka where "ka = a div 5"
    have ka: "0 \<le> ka" "ka \<le> 20" "a = 5 * ka" using a True by (simp_all add: ka_def)
    have pa: "fmul (of_int a) weight_accessibility = of_int (2 * ka) / 4"
      using product_10[OF a True] by (simp add: ka_def)
    have t5: "fadd (of_int M / 4) (of_int (2 * ka) / 4) = of_int (M + 2 * ka) / 4"
      using Mb ka by (intro fadd_quarters) simp
    have "25 * M + 10 * a = 25 * (M + 2 * ka)" using ka by simp
    then have "(of_int (25 * M + 10 * a) / 100 :: rat) = of_int (M + 2 * ka) / 4"
      by simp
    then show ?thesis by (simp only: T pa t5 total jsRound_def)
  next
    case False
    define w :: rat where "w = 3602879701896397 / 36028797018963968"
    define r :: rat where "r = of_int a"
    define m :: rat where "m = of_int M"
    define x where "x = r * w"
    define ya where "ya = fl x"
    have a1: "1 \<le> a" using a False by (cases "a = 0") simp_all
    have ra: "1 \<le> r" "r \<le> 100" using a1 a by (simp_all add: r_def)
    have rM: "130 \<le> m" "m \<le> 360" using Mb by (simp_all add: m_def)
    have w: "w = 1 / 10 + 1 / 180143985094819840" by (simp add: w_def)
    have xe: "x = r / 10 + r / 180143985094819840"
      by (simp add: x_def w algebra_simps)
    have small: "(2::rat) powi (- 1022) \<le> 1 / 16"
    proof -
      have "(2::rat) powi (- 1022) \<le> 2 powi (- 4)" by (rule power_int_increasing) simp_all
      then show ?thesis by (simp add: power_int_minus_divide)
    qed
    have xl: "1 / 10 \<le> x" using ra by (simp add: xe)
    have xu: "x \<le> 11" using ra by (simp add: xe)
    have "\<bar>fl x - x\<bar> \<le> \<bar>x\<bar> / 2 ^ 53"
      using small xl by (intro fl_rel_error) simp
    then have fx: "\<bar>ya - x\<bar> \<le> 11 / 2 ^ 53" using xl xu by (simp add: ya_def)
    have "\<bar>x - r / 10\<bar> \<le> 100 / 180143985094819840" using ra by (simp add: xe)
    with fx have e1: "\<bar>ya - r / 10\<bar> \<le> 1 / 2 ^ 49"
      unfolding abs_le_iff by simp
    have yab: "0 \<le> ya" "ya \<le> 11" using e1 ra unfolding abs_le_iff by simp_all
    define z where "z = m / 4 + ya"
    have zb: "1 / 16 \<le> z" "z \<le> 101" using rM yab by (simp_all add: z_def)
    have "\<bar>fl z - z\<bar> \<le> \<bar>z\<bar> / 2 ^ 53"
      using small zb by (intro fl_rel_error) simp
    then have fz: "\<bar>fl z - z\<bar> \<le> 101 / 2 ^ 53" using zb by simp
    define e where "e = fl z - (m / 4 + r / 10)"
    have "e = (fl z - z) + (ya - r / 10)" by (simp add: e_def z_def)
    then have eb: "\<bar>e\<bar> < 1 / 20"
      using fz e1 unfolding abs_le_iff abs_less_iff by simp
    define N where "N = 5 * M + 2 * a + 10"
    have nd: "\<not> 20 dvd N" using False unfolding N_def by presburger
    have EN: "(m / 4 + r / 10 + 1 / 2 :: rat) = of_int N / 20"
      by (simp add: N_def m_def r_def)
    have "fl z + 1 / 2 = of_int N / 20 + e"
      unfolding e_def EN[symmetric] by simp
    then have "jsRound (fl z) = \<lfloor>of_int N / 20 + e\<rfloor>"
      by (simp only: jsRound_def)
    also have "\<dots> = \<lfloor>(of_int N / 20 :: rat)\<rfloor>" using nd eb by (rule floor_stable)
    also have "(of_int N / 20 :: rat) = of_int (25 * M + 10 * a) / 100 + 1 / 2"
      by (simp add: N_def)
    finally have "jsRound (fl z) = \<lfloor>(of_int (25 * M + 10 * a) / 100 + 1 / 2 :: rat)\<rfloor>" .
    moreover have "fadd (of_int M / 4) (fmul (of_int a) weight_accessibility) = fl z"
      by (simp only: fadd_def fmul_def weight_accessibility_eq z_def ya_def x_def w_def m_def r_def)
    ultimately show ?thesis by (simp only: T total)
  qed
qed

section \<open>Properties of the analysis methods\<close>

subsection \<open>The methods leave the analyzer alone\<close>

lemma analyzeContent_frame: "snd (analyzeContent this) = this"
  by (simp add: analyzeContent_def Let_def split: option.split)

lemma analyzeSEO_frame: "snd (analyzeSEO this) = this"
  by (simp add: analyzeSEO_def Let_def split: option.split sum.split)

lemma analyzePerformance_frame: "snd (analyzePerformance this) = this"
  by (simp add: analyzePerformance_def Let_def split: option.split)

lemma analyzeDesign_frame: "snd (analyzeDesign this) = this"
  by (simp add: analyzeDesign_def Let_def split: option.split)

lemma analyzePsychology_frame: "snd (analyzePsychology this) = this"
  by (simp add: analyzePsychology_def Let_def split: option.split)

lemma analyzeAccessibility_frame: "snd (analyzeAccessibility this) = this"
  by (simp add: analyzeAccessibility_def Let_def split: option.split)

lemmas analyze_frames = analyzeContent_frame analyzeSEO_frame analyzePerformance_frame
  analyzeDesign_frame analyzePsychology_frame analyzeAccessibility_frame

lemma runModule_frame: "snd (runModule m this) = this"
  by (cases m) (simp_all add: runModule_def analyze_frames)

lemma runModules_frame: "snd (runModules ms this) = this"
  by (induction ms arbitrary: this) (simp_all add: runModule_frame)

lemma runModules_results: "fst (runModules ms this) = map (\<lambda>m. fst (runModule m this)) ms"
  by (induction ms arbitrary: this) (simp_all add: runModule_frame)

subsection \<open>The shape of \<open>analyze\<close>\<close>

lemma fetchWebsite_eq:
  "fetchWebsite env u (this, reqs) =
     (case httpGet env u of
        Inl e \<Rightarrow> (Inl e, (this, reqs @ [u]))
      | Inr h \<Rightarrow>
          (case cheerioLoad env h of
             Inl e \<Rightarrow> (Inl e, (this\<lparr>html := h\<rparr>, reqs @ [u]))
           | Inr d \<Rightarrow> (Inr (), (this\<lparr>html := h, dollar := Some d\<rparr>, reqs @ [u]))))"
  by (simp add: fetchWebsite_def Let_def split: sum.split)

lemma analyze_requests: "snd (snd (analyze env u (this, reqs))) = reqs @ [u]"
  by (simp add: analyze_def fetchWebsite_eq Let_def case_prod_beta analyze_frames
        split: sum.split)

lemma analyze_get_fails:
  "httpGet env u = Inl e \<Longrightarrow> fst (analyze env u (this, reqs)) = Inl (analysisFailed e)"
  by (simp add: analyze_def fetchWebsite_eq Let_def)

lemma analyze_load_fails:
  "httpGet env u = Inr h \<Longrightarrow> cheerioLoad env h = Inl e \<Longrightarrow>
   fst (analyze env u (this, reqs)) = Inl (analysisFailed e)"
  by (simp add: analyze_def fetchWebsite_eq Let_def)

lemma analyze_loaded:
  assumes "httpGet env u = Inr h" "cheerioLoad env h = Inr d"
  shows "fst (analyze env u (this, reqs)) =
     (let this = this\<lparr>WebsiteAnalyzer.url := u, html := h, dollar := Some d\<rparr> in
      case fst (analyzeContent this) of Inl e \<Rightarrow> Inl (analysisFailed e) | Inr content \<Rightarrow>
      (case fst (analyzeSEO this) of Inl e \<Rightarrow> Inl (analysisFailed e) | Inr seo \<Rightarrow>
      (case fst (analyzePerformance this) of Inl e \<Rightarrow> Inl (analysisFailed e) | Inr performance \<Rightarrow>
      (case fst (analyzeDesign this) of Inl e \<Rightarrow> Inl (analysisFailed e) | Inr design \<Rightarrow>
      (case fst (analyzePsychology this) of Inl e \<Rightarrow> Inl (analysisFailed e) | Inr psychology \<Rightarrow>
      (case fst (analyzeAccessibility this) of Inl e \<Rightarrow> Inl (analysisFailed e) | Inr accessibility \<Rightarrow>
         Inr \<lparr>AnalysisResult.url = u,
              timestamp = now env,
              overallScore = calculateOverallScore content seo performance design
                               psychology accessibility,
              contentAnalysis = content,
              seoAnalysis = seo,
              performanceAnalysis = performance,
              designAnalysis = design,
              psychologyAnalysis = psychology,
              accessibilityAnalysis = accessibility,
              criticalIssues = Recommendations.criticalIssues
                (generateRecommendations content seo performance design psychology accessibility),
              quickWins = Recommendations.quickWins
                (generateRecommendations content seo performance design psychology accessibility),
              strategicImprovements = Recommendations.strategicImprovements
                (generateRecommendations content seo performance design psychology accessibility),
              freeInsightsCount =
                countFreeInsights
                  (Recommendations.criticalIssues
                    (generateRecommendations content seo performance design psychology accessibility))
                  (Recommendations.quickWins
                    (generateRecommendations content seo performance design psychology accessibility)),
              premiumInsightsAvailable =
                countPremiumInsights
                  (Recommendations.criticalIssues
                    (generateRecommendations content seo performance design psychology accessibility))
                  (Recommendations.quickWins
                    (generateRecommendations content seo performance design psychology accessibility))
                  (Recommendations.strategicImprovements
                    (generateRecommendations content seo performance design psychology accessibility))\<rparr>))))))"
  using assms
  by (simp add: analyze_def fetchWebsite_eq Let_def case_prod_beta analyze_frames
        split: sum.split)

lemma analyze_InrE:
  assumes "fst (analyze env u (this0, reqs)) = Inr r"
  obtains h d where
    "httpGet env u = Inr h" "cheerioLoad env h = Inr d"
    "fst (analyzeContent (this0\<lparr>WebsiteAnalyzer.url := u, html := h, dollar := Some d\<rparr>))
       = Inr (contentAnalysis r)"
    "fst (analyzeSEO (this0\<lparr>WebsiteAnalyzer.url := u, html := h, dollar := Some d\<rparr>))
       = Inr (seoAnalysis r)"
    "fst (analyzePerformance (this0\<lparr>WebsiteAnalyzer.url := u, html := h, dollar := Some d\<rparr>))
       = Inr (performanceAnalysis r)"
    "fst (analyzeDesign (this0\<lparr>WebsiteAnalyzer.url := u, html := h, dollar := Some d\<rparr>))
       = Inr (designAnalysis r)"
    "fst (analyzePsychology (this0\<lparr>WebsiteAnalyzer.url := u, html := h, dollar := Some d\<rparr>))
       = Inr (psychologyAnalysis r)"
    "fst (analyzeAccessibility (this0\<lparr>WebsiteAnalyzer.url := u, html := h, dollar := Some d\<rparr>))
       = Inr (accessibilityAnalysis r)"
    "overallScore r = calculateOverallScore (contentAnalysis r) (seoAnalysis r)
       (performanceAnalysis r) (designAnalysis r) (psychologyAnalysis r)
       (accessibilityAnalysis r)"
    "AnalysisResult.criticalIssues r = Recommendations.criticalIssues
       (generateRecommendations (contentAnalysis r) (seoAnalysis r)
         (performanceAnalysis r) (designAnalysis r) (psychologyAnalysis r)
         (accessibilityAnalysis r))"
    "AnalysisResult.quickWins r = Recommendations.quickWins
       (generateRecommendations (contentAnalysis r) (seoAnalysis r)
         (performanceAnalysis r) (designAnalysis r) (psychologyAnalysis r)
         (accessibilityAnalysis r))"
    "AnalysisResult.strategicImprovements r = Recommendations.strategicImprovements
       (generateRecommendations (contentAnalysis r) (seoAnalysis r)
         (performanceAnalysis r) (designAnalysis r) (psychologyAnalysis r)
         (accessibilityAnalysis r))"
    "freeInsightsCount r =
       countFreeInsights (AnalysisResult.criticalIssues r) (AnalysisResult.quickWins r)"
    "premiumInsightsAvailable r =
       countPremiumInsights (AnalysisResult.criticalIssues r) (AnalysisResult.quickWins r)
         (AnalysisResult.strategicImprovements r)"
    "AnalysisResult.url r = u" "timestamp r = now env"
proof (cases "httpGet env u")
  case (Inl e)
  with assms show ?thesis by (simp add: analyze_get_fails)
next
  case (Inr h)
  show ?thesis
  proof (cases "cheerioLoad env h")
    case (Inl e)
    with assms Inr show ?thesis by (simp add: analyze_load_fails)
  next
    case d: (Inr d)
    from assms show ?thesis
      unfolding analyze_loaded[OF Inr d] Let_def
      by (intro that[OF Inr d]) (auto split: sum.splits)
  qed
qed

subsection \<open>Ranges of the scores\<close>

lemma calculateContentScore_range:
  "70 \<le> calculateContentScore w r s g v c m \<and> calculateContentScore w r s g v c m \<le> 100 \<and>
   5 dvd calculateContentScore w r s g v c m"
  by (simp add: calculateContentScore_def Let_def)

lemma calculateSEOScore_range:
  "50 \<le> calculateSEOScore t ds h ps ma ti sm mo \<and> calculateSEOScore t ds h ps ma ti sm mo \<le> 100 \<and>
   5 dvd calculateSEOScore t ds h ps ma ti sm mo"
  by (simp add: calculateSEOScore_def Let_def)

lemma calculatePerformanceScore_range:
  "70 \<le> calculatePerformanceScore sc st im mc mj lz el \<and>
   calculatePerformanceScore sc st im mc mj lz el \<le> 100 \<and>
   5 dvd calculatePerformanceScore sc st im mc mj lz el"
  by (simp add: calculatePerformanceScore_def Let_def)

lemma calculateDesignScore_range:
  "60 \<le> calculateDesignScore vh ws rs fv ib \<and> calculateDesignScore vh ws rs fv ib \<le> 100 \<and>
   5 dvd calculateDesignScore vh ws rs fv ib"
  by (simp add: calculateDesignScore_def Let_def)

lemma calculatePsychologyScore_range:
  "50 \<le> calculatePsychologyScore ts cc af cl ur sp \<and>
   calculatePsychologyScore ts cc af cl ur sp \<le> 100 \<and>
   5 dvd calculatePsychologyScore ts cc af cl ur sp"
  by (simp add: calculatePsychologyScore_def Let_def)

lemma jsRound_nonneg: "0 \<le> x \<Longrightarrow> 0 \<le> jsRound x"
  by (simp add: jsRound_def)

lemma fadd_nonneg: "0 \<le> x \<Longrightarrow> 0 \<le> y \<Longrightarrow> 0 \<le> fadd x y"
  by (simp add: fadd_def fl_nonneg)

lemma fmul_nonneg: "0 \<le> x \<Longrightarrow> 0 \<le> y \<Longrightarrow> 0 \<le> fmul x y"
  by (simp add: fmul_def fl_nonneg)

lemma fdiv_nonneg: "0 \<le> x \<Longrightarrow> 0 \<le> y \<Longrightarrow> 0 \<le> fdiv x y"
  by (simp add: fdiv_def fl_nonneg)

lemma calculateAccessibilityScore_range:
  assumes "0 \<le> a" "0 \<le> b"
  shows "0 \<le> calculateAccessibilityScore a b s l \<and> calculateAccessibilityScore a b s l \<le> 100"
proof -
  have "0 \<le> fdiv (fadd a b) 2" using assms by (simp add: fdiv_nonneg fadd_nonneg)
  then show ?thesis
    by (simp add: calculateAccessibilityScore_def Let_def jsRound_nonneg fadd_nonneg)
qed

lemma analyzeContent_score:
  assumes "fst (analyzeContent this) = Inr c"
  shows "70 \<le> ContentAnalysis.score c" "ContentAnalysis.score c \<le> 100"
    "5 dvd ContentAnalysis.score c" "length (spellingIssues c) \<le> 5"
  using assms calculateContentScore_range
  by (auto simp: analyzeContent_def Let_def split: option.splits)

lemma analyzeSEO_score:
  assumes "fst (analyzeSEO this) = Inr c"
  shows "50 \<le> SEOAnalysis.score c" "SEOAnalysis.score c \<le> 100" "5 dvd SEOAnalysis.score c"
  using assms calculateSEOScore_range
  by (auto simp: analyzeSEO_def Let_def split: option.splits sum.splits)

lemma analyzePerformance_score:
  assumes "fst (analyzePerformance this) = Inr c"
  shows "70 \<le> PerformanceAnalysis.score c" "PerformanceAnalysis.score c \<le> 100"
    "5 dvd PerformanceAnalysis.score c"
  using assms calculatePerformanceScore_range
  by (auto simp: analyzePerformance_def Let_def split: option.splits)

lemma analyzeDesign_score:
  assumes "fst (analyzeDesign this) = Inr c"
  shows "60 \<le> DesignAnalysis.score c" "DesignAnalysis.score c \<le> 100"
    "5 dvd DesignAnalysis.score c"
  using assms calculateDesignScore_range
  by (auto simp: analyzeDesign_def Let_def split: option.splits)

lemma analyzePsychology_score:
  assumes "fst (analyzePsychology this) = Inr c"
  shows "50 \<le> PsychologyAnalysis.score c" "PsychologyAnalysis.score c \<le> 100"
    "5 dvd PsychologyAnalysis.score c"
  using assms calculatePsychologyScore_range
  by (auto simp: analyzePsychology_def Let_def split: option.splits)

lemma analyzeAccessibility_score:
  assumes "fst (analyzeAccessibility this) = Inr c"
  shows "0 \<le> AccessibilityAnalysis.score c" "AccessibilityAnalysis.score c \<le> 100"
proof -
  from assms obtain d where d: "dollar this = Some d"
    by (auto simp: analyzeAccessibility_def split: option.splits)
  define aria where "aria = (if sel_aria_needing d > 0
       then fmul (fdiv (of_nat (sel_aria_labelled d)) (of_nat (sel_aria_needing d))) 100
       else 100)"
  define alt where "alt = (if length (sel_img_alt d) > 0
       then fmul (fdiv (of_nat (length (filter (\<lambda>alt. alt \<noteq> None) (sel_img_alt d))))
                    (of_nat (length (sel_img_alt d)))) 100
       else 100)"
  have "0 \<le> aria" "0 \<le> alt"
    by (simp_all add: aria_def alt_def fmul_nonneg fdiv_nonneg)
  then have r: "0 \<le> calculateAccessibilityScore aria alt s l \<and>
      calculateAccessibilityScore aria alt s l \<le> 100" for s l
    by (rule calculateAccessibilityScore_range)
  have "AccessibilityAnalysis.score c =
      calculateAccessibilityScore aria alt (sel_semantic d > 0) (sel_html_lang d > 0)"
    using assms d by (auto simp: analyzeAccessibility_def Let_def aria_def alt_def)
  with r show "0 \<le> AccessibilityAnalysis.score c" "AccessibilityAnalysis.score c \<le> 100"
    by simp_all
qed

lemma analyze_overall_exact:
  assumes "fst (analyze env u st) = Inr r"
  shows "overallScore r =
     \<lfloor>(of_int (25 * ContentAnalysis.score (contentAnalysis r) +
               20 * SEOAnalysis.score (seoAnalysis r) +
               15 * PerformanceAnalysis.score (performanceAnalysis r) +
               15 * DesignAnalysis.score (designAnalysis r) +
               15 * PsychologyAnalysis.score (psychologyAnalysis r) +
               10 * AccessibilityAnalysis.score (accessibilityAnalysis r)) / 100 + 1 / 2 :: rat)\<rfloor>"
proof -
  obtain this0 reqs where st: "st = (this0, reqs)" by (cases st)
  from assms[unfolded st] show ?thesis
  proof (rule analyze_InrE)
    fix h d
    let ?A = "this0\<lparr>WebsiteAnalyzer.url := u, html := h, dollar := Some d\<rparr>"
    assume c: "fst (analyzeContent ?A) = Inr (contentAnalysis r)"
       and s: "fst (analyzeSEO ?A) = Inr (seoAnalysis r)"
       and p: "fst (analyzePerformance ?A) = Inr (performanceAnalysis r)"
       and dd: "fst (analyzeDesign ?A) = Inr (designAnalysis r)"
       and y: "fst (analyzePsychology ?A) = Inr (psychologyAnalysis r)"
       and a: "fst (analyzeAccessibility ?A) = Inr (accessibilityAnalysis r)"
       and ov: "overallScore r = calculateOverallScore (contentAnalysis r) (seoAnalysis r)
                  (performanceAnalysis r) (designAnalysis r) (psychologyAnalysis r)
                  (accessibilityAnalysis r)"
    have cb: "0 \<le> ContentAnalysis.score (contentAnalysis r)"
      using analyzeContent_score(1)[OF c] by simp
    have pb: "50 \<le> PerformanceAnalysis.score (performanceAnalysis r)"
      using analyzePerformance_score(1)[OF p] by simp
    have db: "50 \<le> DesignAnalysis.score (designAnalysis r)"
      using analyzeDesign_score(1)[OF dd] by simp
    show ?thesis
      unfolding ov calculateOverallScore_def
      by (rule overall_core[OF cb analyzeContent_score(2)[OF c] analyzeSEO_score[OF s]
            pb analyzePerformance_score(2,3)[OF p] db analyzeDesign_score(2,3)[OF dd]
            analyzePsychology_score[OF y] analyzeAccessibility_score[OF a]])
  qed
qed

subsection \<open>Recommendations and failures\<close>

lemma generateRecommendations_premium:
  assumes "length (spellingIssues c) \<le> 5"
  shows "\<forall>i\<in>set (Recommendations.criticalIssues (generateRecommendations c s p d y a)).
           \<not> Issue.premium i"
    and "\<forall>q\<in>set (Recommendations.quickWins (generateRecommendations c s p d y a)).
           \<not> Recommendation.premium q"
    and "\<forall>q\<in>set (Recommendations.strategicImprovements (generateRecommendations c s p d y a)).
           Recommendation.premium q"
  using assms by (auto simp: generateRecommendations_def Let_def)

lemma length_filter_all: "\<forall>x\<in>set xs. P x \<Longrightarrow> length (filter P xs) = length xs"
  by (induction xs) simp_all

lemma length_filter_none: "\<forall>x\<in>set xs. \<not> P x \<Longrightarrow> length (filter P xs) = 0"
  by (induction xs) simp_all

lemma loaded_eq:
  "this\<lparr>WebsiteAnalyzer.url := u, html := h, dollar := Some d\<rparr> =
   \<lparr>html = h, dollar = Some d, url = u\<rparr>"
  by (cases this) simp

lemma analysisFailed_message:
  "analysisFailed e =
     Error ((str ''Analysis failed: '') @ (case e of Error m \<Rightarrow> m | NonError \<Rightarrow> (str ''Unknown error'')))"
  by (simp add: analysisFailed_def)

lemma loaded_only_SEO_throws:
  assumes "dollar this = Some d" "fst (runModule m this) = Inl e"
  shows "m = SEO"
  using assms
  by (cases m)
     (auto simp: runModule_def analyzeContent_def analyzePerformance_def analyzeDesign_def
        analyzePsychology_def analyzeAccessibility_def Let_def)

lemma analyze_step_fails:
  assumes h: "httpGet env u = Inr h" and d: "cheerioLoad env h = Inr d"
    and m: "fst (runModule m (this\<lparr>WebsiteAnalyzer.url := u, html := h, dollar := Some d\<rparr>)) = Inl e"
  shows "fst (analyze env u (this, reqs)) = Inl (analysisFailed e)"
proof -
  let ?A = "this\<lparr>WebsiteAnalyzer.url := u, html := h, dollar := Some d\<rparr>"
  have "dollar ?A = Some d" by simp
  from loaded_only_SEO_throws[OF this m] have "m = SEO" .
  with m have s: "fst (analyzeSEO ?A) = Inl e"
    by (cases "fst (analyzeSEO ?A)") (simp_all add: runModule_def)
  have c: "\<exists>c. fst (analyzeContent ?A) = Inr c"
    by (simp add: analyzeContent_def Let_def)
  then obtain c where "fst (analyzeContent ?A) = Inr c" ..
  with s show ?thesis
    unfolding analyze_loaded[OF h d] Let_def by simp
qed

lemma analyze_throws_wrapped:
  assumes "fst (analyze env u (this, reqs)) = Inl e"
  shows "\<exists>e'. e = analysisFailed e'"
proof (cases "httpGet env u")
  case (Inl e')
  with assms show ?thesis by (auto simp: analyze_get_fails)
next
  case (Inr h)
  show ?thesis
  proof (cases "cheerioLoad env h")
    case (Inl e')
    with assms Inr show ?thesis by (auto simp: analyze_load_fails)
  next
    case d: (Inr d)
    from assms show ?thesis
      unfolding analyze_loaded[OF Inr d] Let_def
      by (auto split: sum.splits)
  qed
qed

subsection \<open>Searching a text\<close>

lemma startsWith_iff:
  "startsWith s w \<longleftrightarrow> length w \<le> length s \<and> take (length w) s = w"
  by (induction s w rule: startsWith.induct) auto

lemma includes_str_iff:
  "includes_str s w \<longleftrightarrow> (\<exists>i. startsWith (drop i s) w \<and> i \<le> length s)"
proof (induction s)
  case Nil
  show ?case by auto
next
  case (Cons a s)
  show ?case
  proof
    assume "includes_str (a # s) w"
    then consider "startsWith (a # s) w" | "includes_str s w" by auto
    then show "\<exists>i. startsWith (drop i (a # s)) w \<and> i \<le> length (a # s)"
    proof cases
      case 1
      then have "startsWith (drop 0 (a # s)) w \<and> 0 \<le> length (a # s)" by simp
      then show ?thesis by blast
    next
      case 2
      with Cons obtain i where "startsWith (drop i s) w" "i \<le> length s" by blast
      then have "startsWith (drop (Suc i) (a # s)) w \<and> Suc i \<le> length (a # s)" by simp
      then show ?thesis by blast
    qed
  next
    assume "\<exists>i. startsWith (drop i (a # s)) w \<and> i \<le> length (a # s)"
    then obtain i where i: "startsWith (drop i (a # s)) w" "i \<le> length (a # s)" by blast
    show "includes_str (a # s) w"
    proof (cases i)
      case 0
      with i show ?thesis by simp
    next
      case (Suc j)
      with i have "startsWith (drop j s) w \<and> j \<le> length s" by simp
      with Cons show ?thesis by auto
    qed
  qed
qed

lemma indexOfFrom_first:
  "includes_str s w \<Longrightarrow>
   \<exists>n. indexOfFrom k s w = int (k + n) \<and> startsWith (drop n s) w \<and>
       (\<forall>i<n. \<not> startsWith (drop i s) w)"
proof (induction s arbitrary: k)
  case Nil
  then have "indexOfFrom k [] w = int (k + 0) \<and> startsWith (drop 0 []) w \<and>
       (\<forall>i<0. \<not> startsWith (drop i []) w)" by simp
  then show ?case by blast
next
  case (Cons a s)
  show ?case
  proof (cases "startsWith (a # s) w")
    case True
    then have "indexOfFrom k (a # s) w = int (k + 0) \<and> startsWith (drop 0 (a # s)) w \<and>
       (\<forall>i<0. \<not> startsWith (drop i (a # s)) w)" by simp
    then show ?thesis by blast
  next
    case False
    with Cons.prems have "includes_str s w" by simp
    from Cons.IH[OF this, of "Suc k"] obtain n where
      n: "indexOfFrom (Suc k) s w = int (Suc k + n)" "startsWith (drop n s) w"
         "\<forall>i<n. \<not> startsWith (drop i s) w" by blast
    have "\<forall>i<Suc n. \<not> startsWith (drop i (a # s)) w"
    proof (intro allI impI)
      fix i assume "i < Suc n"
      then show "\<not> startsWith (drop i (a # s)) w"
        using False n(3) by (cases i) simp_all
    qed
    with False n(1,2)
    have "indexOfFrom k (a # s) w = int (k + Suc n) \<and> startsWith (drop (Suc n) (a # s)) w \<and>
       (\<forall>i<Suc n. \<not> startsWith (drop i (a # s)) w)" by simp
    then show ?thesis by blast
  qed
qed

lemma toLowerCase_map:
  "304 \<notin> set s \<Longrightarrow> toLowerCase s = map (\<lambda>c. hd (toLowerUnit c)) s"
  by (induction s) (auto simp: toLowerCase_def toLowerUnit_def)

lemma occursAt_iff:
  assumes "w \<noteq> []" "304 \<notin> set text"
  shows "occursAt w text i \<longleftrightarrow> startsWith (drop i (toLowerCase text)) w"
proof -
  have l: "length w \<le> length text - i \<longleftrightarrow> i + length w \<le> length text"
    using assms(1) by (cases w) auto
  have "304 \<notin> set (take (length w) (drop i text))"
    using assms(2) by (meson in_set_dropD in_set_takeD)
  then have "toLowerCase (take (length w) (drop i text)) =
      take (length w) (drop i (toLowerCase text))"
    by (simp add: toLowerCase_map[OF assms(2)] toLowerCase_map take_map drop_map)
  with l show ?thesis
    by (auto simp: occursAt_def startsWith_iff toLowerCase_map[OF assms(2)])
qed

lemma foldl_push:
  "foldl (\<lambda>acc x. if P x then acc @ [f x] else acc) acc xs = acc @ map f (filter P xs)"
  by (induction xs arbitrary: acc) simp_all

lemma detectSpellingIssues_eq:
  "detectSpellingIssues text =
     map (\<lambda>w. \<lparr>word = w, suggestion = getCorrection w,
                position = indexOf (toLowerCase text) w\<rparr>)
       (filter (\<lambda>w. includes_str (toLowerCase text) w) commonMisspellings)"
  unfolding detectSpellingIssues_def by (simp only: foldl_push append_Nil)

text \<open>
  What \<open>detectSpellingIssues\<close> does for every text: it reports the words of the list that
  the lower-cased text contains, each with its first index in the lower-cased text. For
  a text without U+0130 that index is the index of the first case-insensitive occurrence
  in the text itself.
\<close>

lemma detectSpellingIssues_lowered:
  "map word (detectSpellingIssues text) =
     filter (\<lambda>w. includes_str (toLowerCase text) w) commonMisspellings"
  "s \<in> set (detectSpellingIssues text) \<Longrightarrow>
     SpellingIssue.suggestion s = getCorrection (word s) \<and> 0 \<le> position s \<and>
     startsWith (drop (nat (position s)) (toLowerCase text)) (word s) \<and>
     (\<forall>i<nat (position s). \<not> startsWith (drop i (toLowerCase text)) (word s))"
proof -
  show "map word (detectSpellingIssues text) =
     filter (\<lambda>w. includes_str (toLowerCase text) w) commonMisspellings"
    unfolding detectSpellingIssues_eq by (simp add: comp_def)
  assume "s \<in> set (detectSpellingIssues text)"
  then obtain w where w: "includes_str (toLowerCase text) w"
    and s: "s = \<lparr>word = w, suggestion = getCorrection w,
              position = indexOf (toLowerCase text) w\<rparr>"
    unfolding detectSpellingIssues_eq by auto
  from indexOfFrom_first[OF w, of 0] obtain n where
    n: "indexOf (toLowerCase text) w = int n" "startsWith (drop n (toLowerCase text)) w"
       "\<forall>i<n. \<not> startsWith (drop i (toLowerCase text)) w"
    by (auto simp: indexOf_def)
  then show "SpellingIssue.suggestion s = getCorrection (word s) \<and> 0 \<le> position s \<and>
     startsWith (drop (nat (position s)) (toLowerCase text)) (word s) \<and>
     (\<forall>i<nat (position s). \<not> startsWith (drop i (toLowerCase text)) (word s))"
    by (simp add: s)
qed

lemma detectSpellingIssues_without_dotted_I:
  assumes "304 \<notin> set text" "s \<in> set (detectSpellingIssues text)"
  shows "occursAt (word s) text (nat (position s))"
    and "\<forall>i<nat (position s). \<not> occursAt (word s) text i"
proof -
  have "word s \<in> set (map word (detectSpellingIssues text))" using assms(2) by simp
  then have "word s \<in> set commonMisspellings" unfolding detectSpellingIssues_lowered(1) by simp
  then have ne: "word s \<noteq> []" by (auto simp: commonMisspellings_def str_def)
  from detectSpellingIssues_lowered(2)[OF assms(2)]
  show "occursAt (word s) text (nat (position s))"
    and "\<forall>i<nat (position s). \<not> occursAt (word s) text i"
    by (simp_all add: occursAt_iff[OF ne assms(1)])
qed

subsection \<open>The example page analysed\<close>

lemma example_content: "fst (analyzeContent exampleLoaded) = Inr exampleContent"
  by code_simp

lemma example_seo: "fst (analyzeSEO exampleLoaded) = Inr exampleSEO"
  by code_simp

lemma example_performance: "fst (analyzePerformance exampleLoaded) = Inr examplePerformance"
  by code_simp

lemma example_design: "fst (analyzeDesign exampleLoaded) = Inr exampleDesign"
  by code_simp

lemma example_psychology: "fst (analyzePsychology exampleLoaded) = Inr examplePsychology"
  by code_simp

lemma example_accessibility: "fst (analyzeAccessibility exampleLoaded) = Inr exampleAccessibility"
  by code_simp

lemma example_overall:
  "calculateOverallScore exampleContent exampleSEO examplePerformance exampleDesign
     examplePsychology exampleAccessibility = 78"
proof -
  have "jsRound
       (fadd (fadd (fadd (fadd (fadd
          (fmul (of_int 85) weight_content)
          (fmul (of_int 65) weight_seo))
          (fmul (of_int 85) weight_performance))
          (fmul (of_int 95) weight_design))
          (fmul (of_int 70) weight_psychology))
          (fmul (of_int 62) weight_accessibility))
     = \<lfloor>(of_int (25 * 85 + 20 * 65 + 15 * 85 + 15 * 95 + 15 * 70 + 10 * 62) / 100 + 1 / 2 :: rat)\<rfloor>"
    by (rule overall_core) simp_all
  also have "\<dots> = 78" by (rule floor_unique) simp_all
  finally have v: "jsRound
       (fadd (fadd (fadd (fadd (fadd
          (fmul (of_int 85) weight_content)
          (fmul (of_int 65) weight_seo))
          (fmul (of_int 85) weight_performance))
          (fmul (of_int 95) weight_design))
          (fmul (of_int 70) weight_psychology))
          (fmul (of_int 62) weight_accessibility)) = 78" .
  from v show ?thesis
    by (simp add: calculateOverallScore_def exampleContent_def exampleSEO_def
          examplePerformance_def exampleDesign_def examplePsychology_def
          exampleAccessibility_def)
qed

lemma example_recommendations:
  "generateRecommendations exampleContent exampleSEO examplePerformance exampleDesign
     examplePsychology exampleAccessibility =
   \<lparr>Recommendations.criticalIssues = AnalysisResult.criticalIssues exampleResult,
    quickWins = AnalysisResult.quickWins exampleResult,
    strategicImprovements = AnalysisResult.strategicImprovements exampleResult\<rparr>"
  by code_simp

lemma example_analysis:
  "fst (analyze exampleEnv exampleUrl (newAnalyzer, [])) = Inr exampleResult"
proof -
  have h: "httpGet exampleEnv exampleUrl = Inr (str ''<html></html>'')"
    by (simp add: exampleEnv_def exampleUrl_def)
  have d: "cheerioLoad exampleEnv (str ''<html></html>'') = Inr examplePage"
    by (simp add: exampleEnv_def)
  have l: "newAnalyzer\<lparr>WebsiteAnalyzer.url := exampleUrl, html := (str ''<html></html>''),
             dollar := Some examplePage\<rparr> = exampleLoaded"
    by (simp add: newAnalyzer_def exampleLoaded_def)
  have n: "now exampleEnv = (str ''2024-01-01T00:00:00.000Z'')" by (simp add: exampleEnv_def)
  show ?thesis
    unfolding analyze_loaded[OF h d] l Let_def
    by (simp add: example_content example_seo example_performance example_design
          example_psychology example_accessibility example_overall example_recommendations n
          exampleResult_def countFreeInsights_def countPremiumInsights_def)
qed

lemma example_analysis_any:
  "fst (analyze exampleEnv exampleUrl (this, reqs)) = Inr exampleResult"
proof -
  have h: "httpGet exampleEnv exampleUrl = Inr (str ''<html></html>'')"
    by (simp add: exampleEnv_def exampleUrl_def)
  have d: "cheerioLoad exampleEnv (str ''<html></html>'') = Inr examplePage"
    by (simp add: exampleEnv_def)
  have "fst (analyze exampleEnv exampleUrl (this, reqs)) =
        fst (analyze exampleEnv exampleUrl (newAnalyzer, []))"
    unfolding analyze_loaded[OF h d] loaded_eq ..
  then show ?thesis by (simp only: example_analysis)
qed

subsection \<open>Dependence on the document only\<close>

lemma analyzeContent_doc: "dollar a = dollar b \<Longrightarrow> fst (analyzeContent a) = fst (analyzeContent b)"
  by (simp add: analyzeContent_def Let_def split: option.split)

lemma analyzePerformance_doc:
  "dollar a = dollar b \<Longrightarrow> fst (analyzePerformance a) = fst (analyzePerformance b)"
  by (simp add: analyzePerformance_def Let_def split: option.split)

lemma analyzeDesign_doc: "dollar a = dollar b \<Longrightarrow> fst (analyzeDesign a) = fst (analyzeDesign b)"
  by (simp add: analyzeDesign_def Let_def split: option.split)

lemma analyzePsychology_doc:
  "dollar a = dollar b \<Longrightarrow> fst (analyzePsychology a) = fst (analyzePsychology b)"
  by (simp add: analyzePsychology_def Let_def split: option.split)

lemma analyzeAccessibility_doc:
  "dollar a = dollar b \<Longrightarrow> fst (analyzeAccessibility a) = fst (analyzeAccessibility b)"
  by (simp add: analyzeAccessibility_def Let_def split: option.split)

lemma analyzeSEO_doc:
  assumes "dollar a = dollar b" "fst (analyzeSEO a) = Inr s1" "fst (analyzeSEO b) = Inr s2"
  shows "SEOAnalysis.score s1 = SEOAnalysis.score s2"
  using assms by (auto simp: analyzeSEO_def Let_def split: option.splits sum.splits)

lemma analyze_Inr_loaded:
  assumes r: "fst (analyze env u (this0, reqs)) = Inr r"
    and h: "httpGet env u = Inr h" and d: "cheerioLoad env h = Inr d"
  shows "fst (analyzeContent (this0\<lparr>WebsiteAnalyzer.url := u, html := h, dollar := Some d\<rparr>))
           = Inr (contentAnalysis r)"
    and "fst (analyzeSEO (this0\<lparr>WebsiteAnalyzer.url := u, html := h, dollar := Some d\<rparr>))
           = Inr (seoAnalysis r)"
    and "fst (analyzePerformance (this0\<lparr>WebsiteAnalyzer.url := u, html := h, dollar := Some d\<rparr>))
           = Inr (performanceAnalysis r)"
    and "fst (analyzeDesign (this0\<lparr>WebsiteAnalyzer.url := u, html := h, dollar := Some d\<rparr>))
           = Inr (designAnalysis r)"
    and "fst (analyzePsychology (this0\<lparr>WebsiteAnalyzer.url := u, html := h, dollar := Some d\<rparr>))
           = Inr (psychologyAnalysis r)"
    and "fst (analyzeAccessibility (this0\<lparr>WebsiteAnalyzer.url := u, html := h, dollar := Some d\<rparr>))
           = Inr (accessibilityAnalysis r)"
proof -
  from r obtain h' d' where
    g: "httpGet env u = Inr h'" "cheerioLoad env h' = Inr d'"
    and m: "fst (analyzeContent (this0\<lparr>WebsiteAnalyzer.url := u, html := h', dollar := Some d'\<rparr>))
           = Inr (contentAnalysis r)"
      "fst (analyzeSEO (this0\<lparr>WebsiteAnalyzer.url := u, html := h', dollar := Some d'\<rparr>))
           = Inr (seoAnalysis r)"
      "fst (analyzePerformance (this0\<lparr>WebsiteAnalyzer.url := u, html := h', dollar := Some d'\<rparr>))
           = Inr (performanceAnalysis r)"
      "fst (analyzeDesign (this0\<lparr>WebsiteAnalyzer.url := u, html := h', dollar := Some d'\<rparr>))
           = Inr (designAnalysis r)"
      "fst (analyzePsychology (this0\<lparr>WebsiteAnalyzer.url := u, html := h', dollar := Some d'\<rparr>))
           = Inr (psychologyAnalysis r)"
      "fst (analyzeAccessibility (this0\<lparr>WebsiteAnalyzer.url := u, html := h', dollar := Some d'\<rparr>))
           = Inr (accessibilityAnalysis r)"
    by (rule analyze_InrE)
  from g h have "h' = h" by simp
  with g d have "d' = d" by simp
  note e = \<open>h' = h\<close> \<open>d' = d\<close>
  show "fst (analyzeContent (this0\<lparr>WebsiteAnalyzer.url := u, html := h, dollar := Some d\<rparr>))
           = Inr (contentAnalysis r)" using m(1) unfolding e .
  show "fst (analyzeSEO (this0\<lparr>WebsiteAnalyzer.url := u, html := h, dollar := Some d\<rparr>))
           = Inr (seoAnalysis r)" using m(2) unfolding e .
  show "fst (analyzePerformance (this0\<lparr>WebsiteAnalyzer.url := u, html := h, dollar := Some d\<rparr>))
           = Inr (performanceAnalysis r)" using m(3) unfolding e .
  show "fst (analyzeDesign (this0\<lparr>WebsiteAnalyzer.url := u, html := h, dollar := Some d\<rparr>))
           = Inr (designAnalysis r)" using m(4) unfolding e .
  show "fst (analyzePsychology (this0\<lparr>WebsiteAnalyzer.url := u, html := h, dollar := Some d\<rparr>))
           = Inr (psychologyAnalysis r)" using m(5) unfolding e .
  show "fst (analyzeAccessibility (this0\<lparr>WebsiteAnalyzer.url := u, html := h, dollar := Some d\<rparr>))
           = Inr (accessibilityAnalysis r)" using m(6) unfolding e .
qed

section \<open>The claims of the specification\<close>

text \<open>
  C1. For every analysis that succeeds, the \<open>overallScore\<close> of the result is the weighted
  sum \<open>0.25 c + 0.20 s + 0.15 p + 0.15 d + 0.15 y + 0.10 a\<close> of the six module scores of
  the same result, taken exactly and rounded to the nearest integer (a tie upwards). The
  code forms the sum in double arithmetic; on the scores the six modules can produce the
  outcome is the same.
\<close>

theorem overallScore_weighted_round:
  assumes "fst (analyze env u st) = Inr r"
  shows "overallScore r = jsRound
      (25 / 100 * of_int (ContentAnalysis.score (contentAnalysis r)) +
       20 / 100 * of_int (SEOAnalysis.score (seoAnalysis r)) +
       15 / 100 * of_int (PerformanceAnalysis.score (performanceAnalysis r)) +
       15 / 100 * of_int (DesignAnalysis.score (designAnalysis r)) +
       15 / 100 * of_int (PsychologyAnalysis.score (psychologyAnalysis r)) +
       10 / 100 * of_int (AccessibilityAnalysis.score (accessibilityAnalysis r)))"
proof -
  have "(25 / 100 * of_int (ContentAnalysis.score (contentAnalysis r)) +
       20 / 100 * of_int (SEOAnalysis.score (seoAnalysis r)) +
       15 / 100 * of_int (PerformanceAnalysis.score (performanceAnalysis r)) +
       15 / 100 * of_int (DesignAnalysis.score (designAnalysis r)) +
       15 / 100 * of_int (PsychologyAnalysis.score (psychologyAnalysis r)) +
       10 / 100 * of_int (AccessibilityAnalysis.score (accessibilityAnalysis r)) :: rat)
     = of_int (25 * ContentAnalysis.score (contentAnalysis r) +
               20 * SEOAnalysis.score (seoAnalysis r) +
               15 * PerformanceAnalysis.score (performanceAnalysis r) +
               15 * DesignAnalysis.score (designAnalysis r) +
               15 * PsychologyAnalysis.score (psychologyAnalysis r) +
               10 * AccessibilityAnalysis.score (accessibilityAnalysis r)) / 100"
    by simp
  then show ?thesis
    unfolding jsRound_def using analyze_overall_exact[OF assms] by (simp only:)
qed

theorem overallScore_weighted_round_witness:
  "fst (analyze exampleEnv exampleUrl (newAnalyzer, [])) = Inr exampleResult \<and>
   overallScore exampleResult =
     jsRound (25 / 100 * 85 + 20 / 100 * 65 + 15 / 100 * 85 + 15 / 100 * 95 + 15 / 100 * 70
              + 10 / 100 * 62) \<and>
   overallScore exampleResult = 78"
  using overallScore_weighted_round[OF example_analysis] example_analysis
  by (simp add: exampleResult_def exampleContent_def exampleSEO_def examplePerformance_def
        exampleDesign_def examplePsychology_def exampleAccessibility_def)

text \<open>
  C2, as stated, fails for \<open>calculateAccessibilityScore\<close>: with both of its boolean
  features off it is not a constant, it follows \<open>ariaScore\<close> and \<open>altScore\<close>.
\<close>

theorem accessibility_score_not_gated_sum:
  "calculateAccessibilityScore 0 0 False False = 0 \<and>
   calculateAccessibilityScore 50 50 False False = 50 \<and>
   calculateAccessibilityScore 100 100 False False = 100"
  by code_simp

text \<open>
  C2, amended. Five of the six scoring methods are a fixed base plus fixed weights, each
  gated by a boolean or a threshold on a count or a sub-score, clamped to at most 100
  (the performance score also to at least 0). \<open>calculateAccessibilityScore\<close> is the mean
  of \<open>ariaScore\<close> and \<open>altScore\<close>, plus 10 when there is semantic HTML, plus 5 when there is
  a \<open>lang\<close> attribute, each step in double arithmetic, rounded to an integer and clamped
  to at most 100.
\<close>

theorem scoring_methods_closed_form:
  fixes words spelling grammar titleLen descLen h1s noAlt imgs scripts styles fonts
    signals ctas :: nat
    and readability clarity hierarchy space balance ctaQuality :: int
    and loadTime aria alt :: rat
  shows
  "calculateContentScore words readability spelling grammar clearValue cta clarity =
     min 100 (70 + (if words \<ge> 300 then 10 else 0)
                 + (if readability \<ge> 60 then 10 else 0)
                 + (if spelling = 0 then 5 else 0)
                 + (if clearValue then 5 else 0)) \<and>
   calculateSEOScore titleLen descLen h1s structure noAlt imgs schema mobile =
     min 100 (50 + (if titleLen \<ge> 30 \<and> titleLen \<le> 60 then 15 else 0)
                 + (if descLen \<ge> 120 then 15 else 0)
                 + (if structure then 10 else 0)
                 + (if schema then 5 else 0)
                 + (if mobile then 5 else 0)) \<and>
   calculatePerformanceScore scripts styles imgs minCSS minJS lazy loadTime =
     max 0 (min 100 (80 + (if scripts > 10 then - 10 else 0)
                        + (if minCSS then 5 else 0)
                        + (if minJS then 5 else 0)
                        + (if lazy then 10 else 0))) \<and>
   calculateDesignScore hierarchy space readable fonts balance =
     min 100 (60 + (if hierarchy \<ge> 70 then 15 else 0)
                 + (if space \<ge> 70 then 10 else 0)
                 + (if readable then 10 else 0)
                 + (if fonts \<ge> 3 \<and> fonts \<le> 6 then 5 else 0)) \<and>
   calculatePsychologyScore signals ctas aboveTheFold ctaQuality urgency social =
     min 100 (50 + (if signals \<ge> 3 then 20 else 0)
                 + (if ctas \<ge> 1 then 10 else 0)
                 + (if aboveTheFold then 10 else 0)
                 + (if social then 10 else 0)) \<and>
   calculateAccessibilityScore aria alt False False =
     min 100 (jsRound (fdiv (fadd aria alt) 2)) \<and>
   calculateAccessibilityScore aria alt True False =
     min 100 (jsRound (fadd (fdiv (fadd aria alt) 2) 10)) \<and>
   calculateAccessibilityScore aria alt False True =
     min 100 (jsRound (fadd (fdiv (fadd aria alt) 2) 5)) \<and>
   calculateAccessibilityScore aria alt True True =
     min 100 (jsRound (fadd (fadd (fdiv (fadd aria alt) 2) 10) 5))"
  by (simp add: calculateContentScore_def calculateSEOScore_def calculatePerformanceScore_def
        calculateDesignScore_def calculatePsychologyScore_def calculateAccessibilityScore_def
        Let_def)

text \<open>
  C3. \<open>detectSpellingIssues\<close> is to report, for each word of the five-word list that
  occurs case-insensitively in the text, the word, its correction and the index of its
  first case-insensitive occurrence. The code takes the index in \<open>text.toLowerCase()\<close>,
  and lower-casing lengthens the text at every U+0130: in the text of U+0130, a space and
  \<open>recieve\<close>, nine code units long, the word stands at index 2 and at no other index,
  and the position reported is 3.
\<close>

theorem detectSpellingIssues_position_in_lowered_text:
  "detectSpellingIssues ([304, 32] @ str ''recieve'') =
     [\<lparr>word = str ''recieve'', suggestion = str ''receive'', position = 3\<rparr>] \<and>
   toLowerCase ([304, 32] @ str ''recieve'') = [105, 775, 32] @ str ''recieve'' \<and>
   length ([304, 32] @ str ''recieve'') = 9 \<and>
   filter (occursAt (str ''recieve'') ([304, 32] @ str ''recieve'')) [0..<10] = [2] \<and>
   occursAt (str ''recieve'') ([304, 32] @ str ''recieve'') 2 \<and>
   \<not> occursAt (str ''recieve'') ([304, 32] @ str ''recieve'') 3"
  by code_simp

text \<open>
  C4. \<open>calculateReadability\<close> is meant to compare the number of words per sentence with
  15, 20 and 25. The code takes for the number of words the number of pieces
  \<open>split(/\s+/)\<close> returns, and that counts an empty piece before leading and after
  trailing white space: a text of fifteen words and one sentence is scored 90 when it
  starts with its first word and 75 when a space precedes it, although the words and the
  sentences are the same. \<open>wordCount\<close> in \<open>analyzeContent\<close>, six lines above the call,
  counts the same text without the empty pieces.
\<close>

theorem calculateReadability_counts_empty_pieces:
  "length (tokens (str ''a b c d e f g h i j k l m n o'')) = 15 \<and>
   length (tokens (str '' a b c d e f g h i j k l m n o'')) = 15 \<and>
   length (splitRuns isSentenceEnd (str ''a b c d e f g h i j k l m n o'')) = 1 \<and>
   length (splitRuns isSentenceEnd (str '' a b c d e f g h i j k l m n o'')) = 1 \<and>
   length (splitRuns isWhiteSpace (str '' a b c d e f g h i j k l m n o'')) = 16 \<and>
   calculateReadability (str ''a b c d e f g h i j k l m n o'') = 90 \<and>
   calculateReadability (str '' a b c d e f g h i j k l m n o'') = 75"
  by code_simp

text \<open>
  C5. A call of \<open>analyze\<close> makes exactly one request, to the url it was given, whether it
  succeeds or fails. When \<open>axios.get\<close> throws, when \<open>cheerio.load\<close> throws, or when one of
  the analysis methods throws on the loaded document, \<open>analyze\<close> yields no result and
  throws an \<open>Error\<close> whose message is \<open>Analysis failed: \<close> followed by the message of the
  value thrown, or by \<open>Unknown error\<close> when that value is no \<open>Error\<close>; and whatever
  \<open>analyze\<close> throws has such a message.
\<close>

theorem analyze_single_failure_path:
  "snd (snd (analyze env u (this, reqs))) = reqs @ [u] \<and>
   (\<forall>e. httpGet env u = Inl e \<longrightarrow>
      fst (analyze env u (this, reqs)) =
        Inl (Error ((str ''Analysis failed: '') @
               (case e of Error m \<Rightarrow> m | NonError \<Rightarrow> (str ''Unknown error''))))) \<and>
   (\<forall>h e. httpGet env u = Inr h \<and> cheerioLoad env h = Inl e \<longrightarrow>
      fst (analyze env u (this, reqs)) =
        Inl (Error ((str ''Analysis failed: '') @
               (case e of Error m \<Rightarrow> m | NonError \<Rightarrow> (str ''Unknown error''))))) \<and>
   (\<forall>h d m e. httpGet env u = Inr h \<and> cheerioLoad env h = Inr d \<and>
        fst (runModule m (this\<lparr>WebsiteAnalyzer.url := u, html := h, dollar := Some d\<rparr>)) = Inl e \<longrightarrow>
      fst (analyze env u (this, reqs)) =
        Inl (Error ((str ''Analysis failed: '') @
               (case e of Error m \<Rightarrow> m | NonError \<Rightarrow> (str ''Unknown error''))))) \<and>
   (\<forall>e. fst (analyze env u (this, reqs)) = Inl e \<longrightarrow>
      (\<exists>m. e = Error ((str ''Analysis failed: '') @ m)))"
proof (intro conjI allI impI)
  show "snd (snd (analyze env u (this, reqs))) = reqs @ [u]" by (rule analyze_requests)
next
  fix e assume "httpGet env u = Inl e"
  then show "fst (analyze env u (this, reqs)) =
        Inl (Error ((str ''Analysis failed: '') @
               (case e of Error m \<Rightarrow> m | NonError \<Rightarrow> (str ''Unknown error''))))"
    by (simp only: analyze_get_fails analysisFailed_message)
next
  fix h e assume "httpGet env u = Inr h \<and> cheerioLoad env h = Inl e"
  then show "fst (analyze env u (this, reqs)) =
        Inl (Error ((str ''Analysis failed: '') @
               (case e of Error m \<Rightarrow> m | NonError \<Rightarrow> (str ''Unknown error''))))"
    using analyze_load_fails[of env u h e this reqs] by (simp only: analysisFailed_message)
next
  fix h d m e
  assume "httpGet env u = Inr h \<and> cheerioLoad env h = Inr d \<and>
        fst (runModule m (this\<lparr>WebsiteAnalyzer.url := u, html := h, dollar := Some d\<rparr>)) = Inl e"
  then show "fst (analyze env u (this, reqs)) =
        Inl (Error ((str ''Analysis failed: '') @
               (case e of Error m \<Rightarrow> m | NonError \<Rightarrow> (str ''Unknown error''))))"
    using analyze_step_fails[of env u h d m this e reqs] by (simp only: analysisFailed_message)
next
  fix e assume "fst (analyze env u (this, reqs)) = Inl e"
  from analyze_throws_wrapped[OF this] obtain e' where "e = analysisFailed e'" ..
  then show "\<exists>m. e = Error ((str ''Analysis failed: '') @ m)"
    by (auto simp: analysisFailed_def)
qed

theorem analyze_single_failure_path_witness:
  "httpGet exampleEnv (str ''https://nowhere.invalid/'') = Inl (Error (str ''getaddrinfo ENOTFOUND'')) \<and>
   fst (analyze exampleEnv (str ''https://nowhere.invalid/'') (newAnalyzer, [])) =
     Inl (Error (str ''Analysis failed: getaddrinfo ENOTFOUND'')) \<and>
   snd (snd (analyze exampleEnv (str ''https://nowhere.invalid/'') (newAnalyzer, []))) =
     [(str ''https://nowhere.invalid/'')]"
proof -
  have h: "httpGet exampleEnv (str ''https://nowhere.invalid/'') =
           Inl (Error (str ''getaddrinfo ENOTFOUND''))"
    by code_simp
  have m: "str ''Analysis failed: '' @ str ''getaddrinfo ENOTFOUND'' =
           str ''Analysis failed: getaddrinfo ENOTFOUND''"
    by (simp add: str_def)
  from analyze_single_failure_path[of exampleEnv "str ''https://nowhere.invalid/''"
      newAnalyzer "[]"] h m
  show ?thesis by simp
qed

text \<open>
  C6. Each of the six analysis methods leaves the analyzer, that is the fields \<open>html\<close>,
  \<open>$\<close> and \<open>url\<close>, as it found it. So when the methods of any list are called one after the
  other, the analyzer is unchanged at the end and every call yields what the method
  yields on the analyzer at the start; a method yields the same at any position of
  any order.
\<close>

theorem analysis_methods_read_only:
  "snd (analyzeContent this) = this \<and> snd (analyzeSEO this) = this \<and>
   snd (analyzePerformance this) = this \<and> snd (analyzeDesign this) = this \<and>
   snd (analyzePsychology this) = this \<and> snd (analyzeAccessibility this) = this \<and>
   snd (runModules ms this) = this \<and>
   fst (runModules ms this) = map (\<lambda>m. fst (runModule m this)) ms \<and>
   (\<forall>ms' i j. i < length ms \<and> j < length ms' \<and> ms ! i = ms' ! j \<longrightarrow>
      fst (runModules ms this) ! i = fst (runModules ms' this) ! j)"
  by (simp add: analyze_frames runModules_frame runModules_results)

theorem analysis_methods_read_only_witness:
  "fst (runModules [Content, SEO] exampleLoaded) ! 0 =
   fst (runModules [SEO, Content] exampleLoaded) ! 1 \<and>
   snd (runModules [Content, SEO, Accessibility] exampleLoaded) = exampleLoaded"
proof -
  note order = analysis_methods_read_only[of exampleLoaded "[Content, SEO]",
      THEN conjunct2, THEN conjunct2, THEN conjunct2, THEN conjunct2, THEN conjunct2,
      THEN conjunct2, THEN conjunct2, THEN conjunct2, rule_format,
      where ms' = "[SEO, Content]" and i = 0 and j = 1]
  have "fst (runModules [Content, SEO] exampleLoaded) ! 0 =
        fst (runModules [SEO, Content] exampleLoaded) ! 1"
    by (rule order) simp
  moreover have "snd (runModules [Content, SEO, Accessibility] exampleLoaded) = exampleLoaded"
    using analysis_methods_read_only[of exampleLoaded "[Content, SEO, Accessibility]"]
    by (elim conjE)
  ultimately show ?thesis by (rule conjI)
qed

text \<open>
  C7. The result of \<open>analyze\<close> is determined by the response to the request and the url:
  two runs that receive the same response for the same url, parsed by the same parser,
  throw the same error or return results equal in every field but \<open>timestamp\<close>, whatever
  the analyzers held before and whatever the clocks say.
\<close>

theorem analyze_deterministic:
  assumes "httpGet env1 u = httpGet env2 u" and "cheerioLoad env1 = cheerioLoad env2"
  shows "map_sum id withoutTimestamp (fst (analyze env1 u st1)) =
         map_sum id withoutTimestamp (fst (analyze env2 u st2))"
proof -
  obtain this1 reqs1 where st1: "st1 = (this1, reqs1)" by (cases st1)
  obtain this2 reqs2 where st2: "st2 = (this2, reqs2)" by (cases st2)
  show ?thesis
  proof (cases "httpGet env1 u")
    case (Inl e)
    then have "httpGet env2 u = Inl e" using assms(1) by simp
    with Inl show ?thesis by (simp add: st1 st2 analyze_get_fails)
  next
    case (Inr h)
    then have h2: "httpGet env2 u = Inr h" using assms(1) by simp
    show ?thesis
    proof (cases "cheerioLoad env1 h")
      case (Inl e)
      then have "cheerioLoad env2 h = Inl e" using assms(2) by simp
      with Inl Inr h2 show ?thesis by (simp add: st1 st2 analyze_load_fails)
    next
      case d: (Inr d)
      then have d2: "cheerioLoad env2 h = Inr d" using assms(2) by simp
      show ?thesis
        unfolding st1 st2 analyze_loaded[OF Inr d] analyze_loaded[OF h2 d2] loaded_eq Let_def
        by (simp add: withoutTimestamp_def split: sum.split)
    qed
  qed
qed

theorem analyze_deterministic_witness:
  "httpGet exampleEnv exampleUrl = httpGet (exampleEnv\<lparr>now := (str ''2025-06-30T12:00:00.000Z'')\<rparr>) exampleUrl \<and>
   map_sum id withoutTimestamp (fst (analyze exampleEnv exampleUrl (newAnalyzer, []))) =
   map_sum id withoutTimestamp
     (fst (analyze (exampleEnv\<lparr>now := (str ''2025-06-30T12:00:00.000Z'')\<rparr>) exampleUrl
        (exampleLoaded, [(str ''https://nowhere.invalid/'')])))"
proof -
  have h: "httpGet exampleEnv exampleUrl =
           httpGet (exampleEnv\<lparr>now := (str ''2025-06-30T12:00:00.000Z'')\<rparr>) exampleUrl"
    by simp
  have c: "cheerioLoad exampleEnv = cheerioLoad (exampleEnv\<lparr>now := (str ''2025-06-30T12:00:00.000Z'')\<rparr>)"
    by simp
  from analyze_deterministic[OF h c] h show ?thesis by simp
qed

text \<open>
  C8, as stated, fails for the overall score: \<open>calculateOverallScore\<close> reads the six
  module scores, and with five of them fixed its value moves with the sixth.
\<close>

theorem overallScore_depends_on_module_score:
  "calculateOverallScore exampleContent exampleSEO examplePerformance exampleDesign
     examplePsychology exampleAccessibility = 78 \<and>
   calculateOverallScore exampleContent exampleSEO
     (examplePerformance\<lparr>PerformanceAnalysis.score := 95\<rparr>) exampleDesign
     examplePsychology exampleAccessibility = 79"
proof -
  have "jsRound
       (fadd (fadd (fadd (fadd (fadd
          (fmul (of_int 85) weight_content)
          (fmul (of_int 65) weight_seo))
          (fmul (of_int 85) weight_performance))
          (fmul (of_int 95) weight_design))
          (fmul (of_int 70) weight_psychology))
          (fmul (of_int 62) weight_accessibility))
     = \<lfloor>(of_int (25 * 85 + 20 * 65 + 15 * 85 + 15 * 95 + 15 * 70 + 10 * 62) / 100 + 1 / 2 :: rat)\<rfloor>"
    by (rule overall_core) simp_all
  also have "\<dots> = 78" by (rule floor_unique) simp_all
  finally have v: "jsRound
       (fadd (fadd (fadd (fadd (fadd
          (fmul (of_int 85) weight_content)
          (fmul (of_int 65) weight_seo))
          (fmul (of_int 85) weight_performance))
          (fmul (of_int 95) weight_design))
          (fmul (of_int 70) weight_psychology))
          (fmul (of_int 62) weight_accessibility)) = 78" .
  have "jsRound
       (fadd (fadd (fadd (fadd (fadd
          (fmul (of_int 85) weight_content)
          (fmul (of_int 65) weight_seo))
          (fmul (of_int 95) weight_performance))
          (fmul (of_int 95) weight_design))
          (fmul (of_int 70) weight_psychology))
          (fmul (of_int 62) weight_accessibility))
     = \<lfloor>(of_int (25 * 85 + 20 * 65 + 15 * 95 + 15 * 95 + 15 * 70 + 10 * 62) / 100 + 1 / 2 :: rat)\<rfloor>"
    by (rule overall_core) simp_all
  also have "\<dots> = 79" by (rule floor_unique) simp_all
  finally have w: "jsRound
       (fadd (fadd (fadd (fadd (fadd
          (fmul (of_int 85) weight_content)
          (fmul (of_int 65) weight_seo))
          (fmul (of_int 95) weight_performance))
          (fmul (of_int 95) weight_design))
          (fmul (of_int 70) weight_psychology))
          (fmul (of_int 62) weight_accessibility)) = 79" .
  from v w show ?thesis
    by (simp add: calculateOverallScore_def exampleContent_def exampleSEO_def
          examplePerformance_def exampleDesign_def examplePsychology_def
          exampleAccessibility_def)
qed

text \<open>
  C8, amended. The pipeline computes six module scores, each a function of the parsed
  document alone (two successful analyses of the same parsed document agree on each of
  them, whatever the url, the response text, the clock and the analyzers before), and an
  overall score that is a function of the six module scores, and so of the parsed
  document: two results with the same six module scores have the same overall score.
\<close>

theorem scores_functions_of_document:
  assumes "fst (analyze env1 u1 st1) = Inr r1" and "fst (analyze env2 u2 st2) = Inr r2"
  shows "((\<exists>h1 h2 d. httpGet env1 u1 = Inr h1 \<and> cheerioLoad env1 h1 = Inr d \<and>
                     httpGet env2 u2 = Inr h2 \<and> cheerioLoad env2 h2 = Inr d) \<longrightarrow>
            ContentAnalysis.score (contentAnalysis r1) = ContentAnalysis.score (contentAnalysis r2) \<and>
            SEOAnalysis.score (seoAnalysis r1) = SEOAnalysis.score (seoAnalysis r2) \<and>
            PerformanceAnalysis.score (performanceAnalysis r1) =
              PerformanceAnalysis.score (performanceAnalysis r2) \<and>
            DesignAnalysis.score (designAnalysis r1) = DesignAnalysis.score (designAnalysis r2) \<and>
            PsychologyAnalysis.score (psychologyAnalysis r1) =
              PsychologyAnalysis.score (psychologyAnalysis r2) \<and>
            AccessibilityAnalysis.score (accessibilityAnalysis r1) =
              AccessibilityAnalysis.score (accessibilityAnalysis r2) \<and>
            overallScore r1 = overallScore r2) \<and>
         (ContentAnalysis.score (contentAnalysis r1) = ContentAnalysis.score (contentAnalysis r2) \<and>
          SEOAnalysis.score (seoAnalysis r1) = SEOAnalysis.score (seoAnalysis r2) \<and>
          PerformanceAnalysis.score (performanceAnalysis r1) =
            PerformanceAnalysis.score (performanceAnalysis r2) \<and>
          DesignAnalysis.score (designAnalysis r1) = DesignAnalysis.score (designAnalysis r2) \<and>
          PsychologyAnalysis.score (psychologyAnalysis r1) =
            PsychologyAnalysis.score (psychologyAnalysis r2) \<and>
          AccessibilityAnalysis.score (accessibilityAnalysis r1) =
            AccessibilityAnalysis.score (accessibilityAnalysis r2)
          \<longrightarrow> overallScore r1 = overallScore r2)"
proof -
  have ov: "overallScore r1 = overallScore r2"
    if "ContentAnalysis.score (contentAnalysis r1) = ContentAnalysis.score (contentAnalysis r2)"
       "SEOAnalysis.score (seoAnalysis r1) = SEOAnalysis.score (seoAnalysis r2)"
       "PerformanceAnalysis.score (performanceAnalysis r1) =
          PerformanceAnalysis.score (performanceAnalysis r2)"
       "DesignAnalysis.score (designAnalysis r1) = DesignAnalysis.score (designAnalysis r2)"
       "PsychologyAnalysis.score (psychologyAnalysis r1) =
          PsychologyAnalysis.score (psychologyAnalysis r2)"
       "AccessibilityAnalysis.score (accessibilityAnalysis r1) =
          AccessibilityAnalysis.score (accessibilityAnalysis r2)"
    unfolding analyze_overall_exact[OF assms(1)] analyze_overall_exact[OF assms(2)]
    by (simp only: that)
  have same: "ContentAnalysis.score (contentAnalysis r1) = ContentAnalysis.score (contentAnalysis r2) \<and>
            SEOAnalysis.score (seoAnalysis r1) = SEOAnalysis.score (seoAnalysis r2) \<and>
            PerformanceAnalysis.score (performanceAnalysis r1) =
              PerformanceAnalysis.score (performanceAnalysis r2) \<and>
            DesignAnalysis.score (designAnalysis r1) = DesignAnalysis.score (designAnalysis r2) \<and>
            PsychologyAnalysis.score (psychologyAnalysis r1) =
              PsychologyAnalysis.score (psychologyAnalysis r2) \<and>
            AccessibilityAnalysis.score (accessibilityAnalysis r1) =
              AccessibilityAnalysis.score (accessibilityAnalysis r2)"
    if g: "httpGet env1 u1 = Inr h1" "cheerioLoad env1 h1 = Inr d"
          "httpGet env2 u2 = Inr h2" "cheerioLoad env2 h2 = Inr d" for h1 h2 d
  proof -
    obtain a1 q1 where st1: "st1 = (a1, q1)" by (cases st1)
    obtain a2 q2 where st2: "st2 = (a2, q2)" by (cases st2)
    let ?A = "a1\<lparr>WebsiteAnalyzer.url := u1, html := h1, dollar := Some d\<rparr>"
    let ?B = "a2\<lparr>WebsiteAnalyzer.url := u2, html := h2, dollar := Some d\<rparr>"
    have dd: "dollar ?A = dollar ?B" by simp
    note 1 = analyze_Inr_loaded[OF assms(1)[unfolded st1] g(1,2)]
    note 2 = analyze_Inr_loaded[OF assms(2)[unfolded st2] g(3,4)]
    have "contentAnalysis r1 = contentAnalysis r2"
      using 1(1) 2(1) analyzeContent_doc[OF dd] by simp
    moreover have "performanceAnalysis r1 = performanceAnalysis r2"
      using 1(3) 2(3) analyzePerformance_doc[OF dd] by simp
    moreover have "designAnalysis r1 = designAnalysis r2"
      using 1(4) 2(4) analyzeDesign_doc[OF dd] by simp
    moreover have "psychologyAnalysis r1 = psychologyAnalysis r2"
      using 1(5) 2(5) analyzePsychology_doc[OF dd] by simp
    moreover have "accessibilityAnalysis r1 = accessibilityAnalysis r2"
      using 1(6) 2(6) analyzeAccessibility_doc[OF dd] by simp
    moreover have "SEOAnalysis.score (seoAnalysis r1) = SEOAnalysis.score (seoAnalysis r2)"
      using analyzeSEO_doc[OF dd 1(2) 2(2)] .
    ultimately show ?thesis by simp
  qed
  show ?thesis
  proof (intro conjI impI)
    assume "\<exists>h1 h2 d. httpGet env1 u1 = Inr h1 \<and> cheerioLoad env1 h1 = Inr d \<and>
                     httpGet env2 u2 = Inr h2 \<and> cheerioLoad env2 h2 = Inr d"
    then obtain h1 h2 d where g: "httpGet env1 u1 = Inr h1" "cheerioLoad env1 h1 = Inr d"
          "httpGet env2 u2 = Inr h2" "cheerioLoad env2 h2 = Inr d" by blast
    note s = same[OF g]
    from s show "ContentAnalysis.score (contentAnalysis r1) = ContentAnalysis.score (contentAnalysis r2)"
      by simp
    from s show "SEOAnalysis.score (seoAnalysis r1) = SEOAnalysis.score (seoAnalysis r2)" by simp
    from s show "PerformanceAnalysis.score (performanceAnalysis r1) =
              PerformanceAnalysis.score (performanceAnalysis r2)" by simp
    from s show "DesignAnalysis.score (designAnalysis r1) = DesignAnalysis.score (designAnalysis r2)"
      by simp
    from s show "PsychologyAnalysis.score (psychologyAnalysis r1) =
              PsychologyAnalysis.score (psychologyAnalysis r2)" by simp
    from s show "AccessibilityAnalysis.score (accessibilityAnalysis r1) =
              AccessibilityAnalysis.score (accessibilityAnalysis r2)" by simp
    from s show "overallScore r1 = overallScore r2" by (intro ov) simp_all
  next
    assume "ContentAnalysis.score (contentAnalysis r1) = ContentAnalysis.score (contentAnalysis r2) \<and>
          SEOAnalysis.score (seoAnalysis r1) = SEOAnalysis.score (seoAnalysis r2) \<and>
          PerformanceAnalysis.score (performanceAnalysis r1) =
            PerformanceAnalysis.score (performanceAnalysis r2) \<and>
          DesignAnalysis.score (designAnalysis r1) = DesignAnalysis.score (designAnalysis r2) \<and>
          PsychologyAnalysis.score (psychologyAnalysis r1) =
            PsychologyAnalysis.score (psychologyAnalysis r2) \<and>
          AccessibilityAnalysis.score (accessibilityAnalysis r1) =
            AccessibilityAnalysis.score (accessibilityAnalysis r2)"
    then show "overallScore r1 = overallScore r2" by (intro ov) simp_all
  qed
qed

theorem scores_functions_of_document_witness:
  "fst (analyze exampleEnv exampleUrl (newAnalyzer, [])) = Inr exampleResult \<and>
   fst (analyze exampleEnv exampleUrl (exampleLoaded, [exampleUrl])) = Inr exampleResult \<and>
   httpGet exampleEnv exampleUrl = Inr (str ''<html></html>'') \<and>
   cheerioLoad exampleEnv (str ''<html></html>'') = Inr examplePage \<and>
   overallScore exampleResult = overallScore exampleResult"
  using scores_functions_of_document[OF example_analysis
          example_analysis_any[of exampleLoaded "[exampleUrl]"]]
    example_analysis example_analysis_any[of exampleLoaded "[exampleUrl]"]
  by (simp add: exampleEnv_def exampleUrl_def)

text \<open>
  C9. In the result of every analysis that succeeds, each of the six module scores and
  the overall score lies between 0 and 100.
\<close>

theorem scores_between_0_and_100:
  assumes "fst (analyze env u st) = Inr r"
  shows "0 \<le> ContentAnalysis.score (contentAnalysis r) \<and>
         ContentAnalysis.score (contentAnalysis r) \<le> 100 \<and>
         0 \<le> SEOAnalysis.score (seoAnalysis r) \<and>
         SEOAnalysis.score (seoAnalysis r) \<le> 100 \<and>
         0 \<le> PerformanceAnalysis.score (performanceAnalysis r) \<and>
         PerformanceAnalysis.score (performanceAnalysis r) \<le> 100 \<and>
         0 \<le> DesignAnalysis.score (designAnalysis r) \<and>
         DesignAnalysis.score (designAnalysis r) \<le> 100 \<and>
         0 \<le> PsychologyAnalysis.score (psychologyAnalysis r) \<and>
         PsychologyAnalysis.score (psychologyAnalysis r) \<le> 100 \<and>
         0 \<le> AccessibilityAnalysis.score (accessibilityAnalysis r) \<and>
         AccessibilityAnalysis.score (accessibilityAnalysis r) \<le> 100 \<and>
         0 \<le> overallScore r \<and> overallScore r \<le> 100"
proof -
  obtain this0 reqs where st: "st = (this0, reqs)" by (cases st)
  define K where "K = 25 * ContentAnalysis.score (contentAnalysis r) +
               20 * SEOAnalysis.score (seoAnalysis r) +
               15 * PerformanceAnalysis.score (performanceAnalysis r) +
               15 * DesignAnalysis.score (designAnalysis r) +
               15 * PsychologyAnalysis.score (psychologyAnalysis r) +
               10 * AccessibilityAnalysis.score (accessibilityAnalysis r)"
  have ov: "overallScore r = \<lfloor>(of_int K / 100 + 1 / 2 :: rat)\<rfloor>"
    unfolding K_def by (rule analyze_overall_exact[OF assms])
  from assms[unfolded st] show ?thesis
  proof (rule analyze_InrE)
    fix h d
    let ?A = "this0\<lparr>WebsiteAnalyzer.url := u, html := h, dollar := Some d\<rparr>"
    assume c: "fst (analyzeContent ?A) = Inr (contentAnalysis r)"
       and s: "fst (analyzeSEO ?A) = Inr (seoAnalysis r)"
       and p: "fst (analyzePerformance ?A) = Inr (performanceAnalysis r)"
       and dd: "fst (analyzeDesign ?A) = Inr (designAnalysis r)"
       and y: "fst (analyzePsychology ?A) = Inr (psychologyAnalysis r)"
       and a: "fst (analyzeAccessibility ?A) = Inr (accessibilityAnalysis r)"
    note b = analyzeContent_score(1,2)[OF c] analyzeSEO_score(1,2)[OF s]
      analyzePerformance_score(1,2)[OF p] analyzeDesign_score(1,2)[OF dd]
      analyzePsychology_score(1,2)[OF y] analyzeAccessibility_score[OF a]
    have K: "0 \<le> K" "K \<le> 10000" using b by (simp_all add: K_def)
    then have "(0::rat) \<le> of_int K" "(of_int K :: rat) \<le> 10000" by simp_all
    then have "0 \<le> \<lfloor>(of_int K / 100 + 1 / 2 :: rat)\<rfloor>"
      "\<lfloor>(of_int K / 100 + 1 / 2 :: rat)\<rfloor> \<le> 100"
      by (simp_all add: le_floor_iff floor_le_iff)
    with b show ?thesis by (simp add: ov)
  qed
qed

theorem scores_between_0_and_100_witness:
  "fst (analyze exampleEnv exampleUrl (newAnalyzer, [])) = Inr exampleResult \<and>
   0 \<le> overallScore exampleResult \<and> overallScore exampleResult \<le> 100 \<and>
   0 \<le> AccessibilityAnalysis.score (accessibilityAnalysis exampleResult) \<and>
   AccessibilityAnalysis.score (accessibilityAnalysis exampleResult) \<le> 100"
  using scores_between_0_and_100[OF example_analysis] example_analysis by simp

text \<open>
  C10. In every result, no critical issue and no quick win is premium (the spelling
  quick win would be premium above five spelling issues, and the list it counts has been
  cut to five), so \<open>freeInsightsCount\<close> is the number of critical issues plus the number
  of quick wins, and \<open>premiumInsightsAvailable\<close> is the number of strategic improvements.
\<close>

theorem insights_free_and_premium:
  assumes "fst (analyze env u st) = Inr r"
  shows "(\<forall>i\<in>set (AnalysisResult.criticalIssues r). \<not> Issue.premium i) \<and>
         (\<forall>q\<in>set (AnalysisResult.quickWins r). \<not> Recommendation.premium q) \<and>
         freeInsightsCount r =
           length (AnalysisResult.criticalIssues r) + length (AnalysisResult.quickWins r) \<and>
         premiumInsightsAvailable r = length (AnalysisResult.strategicImprovements r)"
proof -
  obtain this0 reqs where st: "st = (this0, reqs)" by (cases st)
  from assms[unfolded st] show ?thesis
  proof (rule analyze_InrE)
    fix h d
    let ?A = "this0\<lparr>WebsiteAnalyzer.url := u, html := h, dollar := Some d\<rparr>"
    let ?recs = "generateRecommendations (contentAnalysis r) (seoAnalysis r)
         (performanceAnalysis r) (designAnalysis r) (psychologyAnalysis r)
         (accessibilityAnalysis r)"
    assume c: "fst (analyzeContent ?A) = Inr (contentAnalysis r)"
       and ci: "AnalysisResult.criticalIssues r = Recommendations.criticalIssues ?recs"
       and qw: "AnalysisResult.quickWins r = Recommendations.quickWins ?recs"
       and si: "AnalysisResult.strategicImprovements r = Recommendations.strategicImprovements ?recs"
       and fr: "freeInsightsCount r =
         countFreeInsights (AnalysisResult.criticalIssues r) (AnalysisResult.quickWins r)"
       and pr: "premiumInsightsAvailable r =
         countPremiumInsights (AnalysisResult.criticalIssues r) (AnalysisResult.quickWins r)
           (AnalysisResult.strategicImprovements r)"
    note g = generateRecommendations_premium[OF analyzeContent_score(4)[OF c],
        of "seoAnalysis r" "performanceAnalysis r" "designAnalysis r" "psychologyAnalysis r"
           "accessibilityAnalysis r", folded ci qw si]
    have "countFreeInsights (AnalysisResult.criticalIssues r) (AnalysisResult.quickWins r) =
        length (AnalysisResult.criticalIssues r) + length (AnalysisResult.quickWins r)"
      unfolding countFreeInsights_def using g(1,2) by (simp add: length_filter_all)
    moreover have "countPremiumInsights (AnalysisResult.criticalIssues r)
        (AnalysisResult.quickWins r) (AnalysisResult.strategicImprovements r) =
        length (AnalysisResult.strategicImprovements r)"
      unfolding countPremiumInsights_def using g
      by (simp add: length_filter_all length_filter_none)
    ultimately show ?thesis using g(1,2) fr pr by simp
  qed
qed

theorem insights_free_and_premium_witness:
  "fst (analyze exampleEnv exampleUrl (newAnalyzer, [])) = Inr exampleResult \<and>
   length (AnalysisResult.criticalIssues exampleResult) = 1 \<and>
   length (AnalysisResult.quickWins exampleResult) = 2 \<and>
   freeInsightsCount exampleResult = 3 \<and>
   premiumInsightsAvailable exampleResult = 0 \<and>
   map Recommendation.premium (AnalysisResult.quickWins exampleResult) = [False, False] \<and>
   map Issue.premium (AnalysisResult.criticalIssues exampleResult) = [False]"
  using insights_free_and_premium[OF example_analysis] example_analysis
  by (simp add: exampleResult_def)

end
